theory Spec2Isabelle
  imports Complex_Main "HOL-Library.Char_ord" "HOL-Library.List_Lexorder" "HOL-Library.Multiset"
begin

section \<open>GTFS dashboard: the derivation engine of app.py\<close>

text \<open>
  The theory embeds the functions of \<^verbatim>\<open>app.py\<close> that join the four GTFS tables and
  derive headways, trip durations, departure boards, route paths and route edits.
  Python values are modelled as follows.
  \<^item> A CSV cell is a \<open>string option\<close>: \<open>None\<close> is Python's \<^verbatim>\<open>None\<close> (which
    \<^verbatim>\<open>csv.DictReader\<close> stores for a row that is shorter than the header), \<open>Some s\<close> a
    \<^verbatim>\<open>str\<close>.
  \<^item> A row (a \<^verbatim>\<open>dict\<close>) is an association list from column names to cells; the first
    pair of a key is the one that counts, and the keys keep the insertion order of the
    Python dictionary.
  \<^item> Python integers are \<open>int\<close>; the quotients that Python computes in floating point
    (averages, minutes) are exact rationals here, and the final \<^verbatim>\<open>round(_, 2)\<close> of the
    JSON output is left out.
  \<^item> An exception is a value: \<open>None\<close> where the source catches it and returns
    \<^verbatim>\<open>None\<close>, an error response where the handler answers with one.
\<close>

subsection \<open>Python strings and integers\<close>

type_synonym cell = "string option"
type_synonym row = "(string \<times> cell) list"

text \<open>\<^verbatim>\<open>key in d\<close>, \<^verbatim>\<open>d.get(key)\<close> and \<^verbatim>\<open>d.get(key, default)\<close>.\<close>

definition has :: "row \<Rightarrow> string \<Rightarrow> bool" where
  "has r k = (map_of r k \<noteq> None)"

definition get :: "row \<Rightarrow> string \<Rightarrow> cell" where
  "get r k = (case map_of r k of None \<Rightarrow> None | Some v \<Rightarrow> v)"

definition get_d :: "row \<Rightarrow> string \<Rightarrow> cell \<Rightarrow> cell" where
  "get_d r k d = (case map_of r k of None \<Rightarrow> d | Some v \<Rightarrow> v)"

text \<open>Truthiness of a cell: \<^verbatim>\<open>None\<close> and the empty string are false.\<close>

definition truthy :: "cell \<Rightarrow> bool" where
  "truthy c = (case c of None \<Rightarrow> False | Some s \<Rightarrow> s \<noteq> [])"

text \<open>
  \<^verbatim>\<open>str.isspace\<close> on the ASCII range: tab, line feed, vertical tab, form feed, carriage
  return, the four separators 28 to 31, and the space.
\<close>

definition is_space :: "char \<Rightarrow> bool" where
  "is_space c = (let n = (of_char c :: nat) in (9 \<le> n \<and> n \<le> 13) \<or> (28 \<le> n \<and> n \<le> 32))"

definition strip :: "string \<Rightarrow> string" where
  "strip s = rev (dropWhile is_space (rev (dropWhile is_space s)))"

text \<open>\<^verbatim>\<open>s.split(sep)\<close> with an explicit separator: every occurrence splits, and the
  empty string gives one empty part.\<close>

fun split_on :: "char \<Rightarrow> string \<Rightarrow> string list" where
  "split_on sep [] = [[]]"
| "split_on sep (c # cs) =
     (if c = sep then [] # split_on sep cs
      else (case split_on sep cs of [] \<Rightarrow> [[c]] | p # ps \<Rightarrow> (c # p) # ps))"

definition is_digit :: "char \<Rightarrow> bool" where
  "is_digit c = (let n = (of_char c :: nat) in 48 \<le> n \<and> n \<le> 57)"

definition digit_val :: "char \<Rightarrow> int" where
  "digit_val c = int (of_char c) - 48"

text \<open>
  \<^verbatim>\<open>int(s)\<close> for an ASCII string, base ten: surrounding whitespace is dropped, one sign
  is allowed, then come digits, where single underscores may stand between two digits.
  Anything else raises \<^verbatim>\<open>ValueError\<close>, which is \<open>None\<close> here. The whitespace that
  \<^verbatim>\<open>int\<close> drops in an ASCII text is that of C (tab to carriage return, and the
  space); unlike \<^verbatim>\<open>str.strip\<close> it does not drop the separators 28 to 31. \<open>int_digits\<close>
  reads the rest of a numeral whose value so far is the accumulator.
\<close>

definition is_int_space :: "char \<Rightarrow> bool" where
  "is_int_space c = (let n = (of_char c :: nat) in (9 \<le> n \<and> n \<le> 13) \<or> n = 32)"

definition int_strip :: "string \<Rightarrow> string" where
  "int_strip s = rev (dropWhile is_int_space (rev (dropWhile is_int_space s)))"

fun int_digits :: "int \<Rightarrow> string \<Rightarrow> int option" where
  "int_digits acc [] = Some acc"
| "int_digits acc (c # cs) =
     (if is_digit c then int_digits (acc * 10 + digit_val c) cs
      else if c = CHR ''_'' then
        (case cs of
           [] \<Rightarrow> None
         | d # ds \<Rightarrow> if is_digit d then int_digits (acc * 10 + digit_val d) ds else None)
      else None)"

definition int_unsigned :: "string \<Rightarrow> int option" where
  "int_unsigned s =
     (case s of [] \<Rightarrow> None
      | c # cs \<Rightarrow> if is_digit c then int_digits (digit_val c) cs else None)"

definition py_int :: "string \<Rightarrow> int option" where
  "py_int s =
     (case int_strip s of
        [] \<Rightarrow> None
      | c # cs \<Rightarrow>
          if c = CHR ''-'' then map_option uminus (int_unsigned cs)
          else if c = CHR ''+'' then int_unsigned cs
          else int_unsigned (c # cs))"

subsection \<open>Time codec: \<^verbatim>\<open>parse_time_to_seconds\<close>\<close>

text \<open>
  The source returns \<^verbatim>\<open>None\<close> for a false argument (\<^verbatim>\<open>None\<close> or the empty string), then
  reads \<^verbatim>\<open>parts[0]\<close>, \<^verbatim>\<open>parts[1]\<close> and \<^verbatim>\<open>parts[2]\<close> of \<^verbatim>\<open>time_str.split(':')\<close> inside a
  \<^verbatim>\<open>try\<close> whose bare \<^verbatim>\<open>except\<close> returns \<^verbatim>\<open>None\<close>: a missing part (\<^verbatim>\<open>IndexError\<close>) and a
  part that is no integer (\<^verbatim>\<open>ValueError\<close>) both end there. Parts after the third are
  never read.
\<close>

definition parse_time_to_seconds :: "cell \<Rightarrow> int option" where
  "parse_time_to_seconds time_str =
     (if \<not> truthy time_str then None
      else
        (case split_on CHR '':'' (the time_str) of
           p0 # p1 # p2 # _ \<Rightarrow>
             (case py_int p0 of
                None \<Rightarrow> None
              | Some hours \<Rightarrow>
                  (case py_int p1 of
                     None \<Rightarrow> None
                   | Some minutes \<Rightarrow>
                       (case py_int p2 of
                          None \<Rightarrow> None
                        | Some seconds \<Rightarrow> Some (hours * 3600 + minutes * 60 + seconds))))
         | _ \<Rightarrow> None))"

subsection \<open>Dictionaries that keep insertion order\<close>

text \<open>
  \<open>dd_modify k g d\<close> is one access to a \<^verbatim>\<open>defaultdict\<close> whose default value is \<open>d\<close>:
  the value of an existing key is changed in place by \<open>g\<close>, a new key is added at the
  end with the changed default. \<open>dd_append\<close> is the access
  \<^verbatim>\<open>groups[key].append(v)\<close> of a \<^verbatim>\<open>defaultdict(list)\<close>.
\<close>

fun dd_modify :: "'k \<Rightarrow> ('v \<Rightarrow> 'v) \<Rightarrow> 'v \<Rightarrow> ('k \<times> 'v) list \<Rightarrow> ('k \<times> 'v) list" where
  "dd_modify k g d [] = [(k, g d)]"
| "dd_modify k g d ((k', v) # rest) =
     (if k = k' then (k', g v) # rest else (k', v) # dd_modify k g d rest)"

definition dd_append :: "'k \<Rightarrow> 'v \<Rightarrow> ('k \<times> 'v list) list \<Rightarrow> ('k \<times> 'v list) list" where
  "dd_append k v groups = dd_modify k (\<lambda>vs. vs @ [v]) [] groups"

subsection \<open>Join index: \<^verbatim>\<open>trip_to_route\<close>\<close>

text \<open>
  \<^verbatim>\<open>{trip['trip_id']: trip['route_id'] for trip in trips_data
     if 'trip_id' in trip and 'route_id' in trip}\<close>: a later trip with the same id
  overwrites an earlier one.
\<close>

definition trip_to_route :: "row list \<Rightarrow> (cell \<rightharpoonup> cell)" where
  "trip_to_route trips_data =
     fold (\<lambda>trip m. if has trip ''trip_id'' \<and> has trip ''route_id''
                     then m(get trip ''trip_id'' \<mapsto> get trip ''route_id'') else m)
          trips_data Map.empty"

subsection \<open>System-wide KPIs: \<^verbatim>\<open>get_kpis\<close>\<close>

text \<open>A number of the JSON answer that may be \<^verbatim>\<open>null\<close>.\<close>

datatype jnum = JNull | JNum rat

record dep_entry =
  entry_trip_id :: cell
  departure_sec :: int
  entry_route_id :: cell

text \<open>
  KPI C, first loop: every stop-time that has the columns \<^verbatim>\<open>stop_id\<close> and \<^verbatim>\<open>trip_id\<close>,
  whose trip has a route and whose departure time parses, is appended to the group of
  its (route, stop) pair.
\<close>

definition kpi_route_stop_times :: "row list \<Rightarrow> row list \<Rightarrow> ((cell \<times> cell) \<times> dep_entry list) list" where
  "kpi_route_stop_times trips_data stop_times =
     fold (\<lambda>st groups.
            if has st ''stop_id'' \<and> has st ''trip_id'' then
              (case trip_to_route trips_data (get st ''trip_id'') of
                 None \<Rightarrow> groups
               | Some route_id \<Rightarrow>
                   (case parse_time_to_seconds (get_d st ''departure_time'' (Some [])) of
                      None \<Rightarrow> groups
                    | Some dep_sec \<Rightarrow>
                        dd_append (route_id, get st ''stop_id'')
                          \<lparr>entry_trip_id = get st ''trip_id'', departure_sec = dep_sec,
                           entry_route_id = route_id\<rparr> groups))
            else groups)
          stop_times []"

text \<open>
  The loop \<^verbatim>\<open>for i in range(1, len(times))\<close> over a sorted list: the difference of each
  element and its predecessor, kept when it is positive.
\<close>

fun positive_gaps :: "int list \<Rightarrow> int list" where
  "positive_gaps (a # b # rest) =
     (if b - a > 0 then (b - a) # positive_gaps (b # rest) else positive_gaps (b # rest))"
| "positive_gaps _ = []"

definition kpi_headways :: "row list \<Rightarrow> row list \<Rightarrow> int list" where
  "kpi_headways trips_data stop_times =
     concat (map (\<lambda>(key, times). positive_gaps (map departure_sec (sort_key departure_sec times)))
                 (kpi_route_stop_times trips_data stop_times))"

text \<open>\<^verbatim>\<open>sum(xs) / len(xs) if xs else 0\<close>.\<close>

definition average_or_zero :: "int list \<Rightarrow> rat" where
  "average_or_zero xs = (if xs = [] then 0 else of_int (sum_list xs) / of_nat (length xs))"

text \<open>
  KPI D: \<^verbatim>\<open>trip_times\<close> maps a trip id to its earliest and latest time seen so far
  (\<^verbatim>\<open>{'first': None, 'last': None}\<close> at the start). \<open>note_time\<close> is the pair of
  \<^verbatim>\<open>if\<close> statements that takes one more time into account.
\<close>

type_synonym span = "int option \<times> int option"

definition note_time :: "int \<Rightarrow> span \<Rightarrow> span" where
  "note_time t sp =
     (let first' = (case fst sp of None \<Rightarrow> Some t | Some f \<Rightarrow> if t < f then Some t else Some f);
          last' = (case snd sp of None \<Rightarrow> Some t | Some l \<Rightarrow> if t > l then Some t else Some l)
      in (first', last'))"

definition trip_times :: "row list \<Rightarrow> (string \<times> span) list" where
  "trip_times stop_times =
     fold (\<lambda>st tt.
            if \<not> truthy (get st ''trip_id'') then tt
            else
              (let trip_id = the (get st ''trip_id'');
                   arr_sec = parse_time_to_seconds (get_d st ''arrival_time'' (Some []));
                   dep_sec = parse_time_to_seconds (get_d st ''departure_time'' (Some []));
                   tt1 = (case arr_sec of None \<Rightarrow> tt
                          | Some a \<Rightarrow> dd_modify trip_id (note_time a) (None, None) tt)
               in (case dep_sec of None \<Rightarrow> tt1
                   | Some d \<Rightarrow> dd_modify trip_id (note_time d) (None, None) tt1)))
          stop_times []"

definition trip_durations :: "row list \<Rightarrow> int list" where
  "trip_durations stop_times =
     concat (map (\<lambda>(trip_id, times).
                    (case times of
                       (Some t_first, Some t_last) \<Rightarrow>
                         if t_last - t_first > 0 then [t_last - t_first] else []
                     | _ \<Rightarrow> []))
                 (trip_times stop_times))"

record kpis =
  kpi_total_routes :: nat
  kpi_total_trips :: nat
  kpi_avg_headway_minutes :: jnum
  kpi_avg_trip_duration_minutes :: jnum
  kpi_total_stops :: nat
  kpi_error :: "string option"

text \<open>
  The first argument is \<open>None\<close> when the file \<^verbatim>\<open>routes.txt\<close> does not exist; the other
  tables are what \<^verbatim>\<open>load_csv\<close> returns (the empty list for a missing file).
\<close>

definition get_kpis :: "row list option \<Rightarrow> row list \<Rightarrow> row list \<Rightarrow> row list \<Rightarrow> kpis" where
  "get_kpis routes_file trips stop_times stops =
     (case routes_file of
        None \<Rightarrow>
          \<lparr>kpi_total_routes = 0, kpi_total_trips = 0, kpi_avg_headway_minutes = JNum 0,
           kpi_avg_trip_duration_minutes = JNum 0, kpi_total_stops = 0,
           kpi_error = Some ''routes.txt file not found''\<rparr>
      | Some routes \<Rightarrow>
          (let route_ids = filter (\<lambda>route_id. route_id \<noteq> [])
                             (map strip (List.map_filter (\<lambda>r. get r ''route_id'') routes));
               unique_routes = card (set route_ids);
               trip_ids = map (\<lambda>t. strip (the (get t ''trip_id'')))
                              (filter (\<lambda>t. truthy (get t ''trip_id'')) trips);
               unique_trips = card (set trip_ids);
               avg_headway_sec = average_or_zero (kpi_headways trips stop_times);
               avg_headway_min = avg_headway_sec / 60;
               avg_duration_sec = average_or_zero (trip_durations stop_times);
               avg_duration_min = avg_duration_sec / 60
           in \<lparr>kpi_total_routes = unique_routes, kpi_total_trips = unique_trips,
               kpi_avg_headway_minutes = JNum avg_headway_min,
               kpi_avg_trip_duration_minutes = JNum avg_duration_min,
               kpi_total_stops = length stops, kpi_error = None\<rparr>))"

subsection \<open>Departure board: \<^verbatim>\<open>get_stop_departures\<close>\<close>

text \<open>
  \<^verbatim>\<open>{r['route_id']: r for r in routes_data if 'route_id' in r}\<close>.
\<close>

definition route_info :: "row list \<Rightarrow> (cell \<rightharpoonup> row)" where
  "route_info routes_data =
     fold (\<lambda>r m. if has r ''route_id'' then m(get r ''route_id'' \<mapsto> r) else m)
          routes_data Map.empty"

record departure =
  dep_trip_id :: cell
  dep_route_id :: cell
  dep_route_name :: cell
  dep_departure_time :: cell
  dep_arrival_time :: cell
  dep_stop_sequence :: cell

text \<open>
  The entry of one stop-time. \<^verbatim>\<open>trip_to_route.get(...)\<close> is \<^verbatim>\<open>None\<close> for a trip without
  route; the route name is the short name of the route, the route id when the route
  or its short-name column is missing, and \<^verbatim>\<open>'N/A'\<close> without a route id.
\<close>

definition departure_of :: "row list \<Rightarrow> row list \<Rightarrow> row \<Rightarrow> departure" where
  "departure_of trips_data routes_data st =
     (let route_id = (case trip_to_route trips_data (get st ''trip_id'') of
                        None \<Rightarrow> None | Some c \<Rightarrow> c);
          route_name =
            (if truthy route_id then
               (case route_info routes_data route_id of
                  None \<Rightarrow> route_id
                | Some r \<Rightarrow> get_d r ''route_short_name'' route_id)
             else Some ''N/A'')
      in \<lparr>dep_trip_id = get st ''trip_id'', dep_route_id = route_id,
          dep_route_name = route_name, dep_departure_time = get st ''departure_time'',
          dep_arrival_time = get st ''arrival_time'',
          dep_stop_sequence = get st ''stop_sequence''\<rparr>)"

text \<open>
  The sort key \<^verbatim>\<open>x['departure_time'] if x['departure_time'] else ''\<close>. Python compares
  two \<^verbatim>\<open>str\<close> values lexicographically by code point; \<open>\<le>\<close> on \<open>string\<close> is the
  lexicographic order of the character codes. \<^verbatim>\<open>list.sort\<close> is stable, as \<open>sort_key\<close> is.
\<close>

definition departure_key :: "departure \<Rightarrow> string" where
  "departure_key x = (if truthy (dep_departure_time x) then the (dep_departure_time x) else [])"

definition at_stop :: "string \<Rightarrow> row \<Rightarrow> bool" where
  "at_stop stop_id st \<longleftrightarrow> get st ''stop_id'' = Some stop_id \<and> has st ''departure_time''"

definition get_stop_departures :: "row list \<Rightarrow> row list \<Rightarrow> row list \<Rightarrow> string \<Rightarrow> departure list" where
  "get_stop_departures trips_data routes_data stop_times stop_id =
     (let departures = map (departure_of trips_data routes_data) (filter (at_stop stop_id) stop_times)
      in take 20 (sort_key departure_key departures))"

subsection \<open>Single-route queries\<close>

text \<open>The error answers of the handlers: status 400, 404 and 500.\<close>

datatype http_error = Bad_request | Not_found | Server_error

text \<open>
  \<^verbatim>\<open>int(x.get('stop_sequence', d))\<close> with an integer default \<open>d\<close>: the default when the
  column is missing, \<^verbatim>\<open>TypeError\<close> for \<^verbatim>\<open>None\<close>, \<^verbatim>\<open>ValueError\<close> for a text that is no
  integer. Both exceptions are \<open>None\<close>.
\<close>

definition stop_sequence_int :: "int \<Rightarrow> row \<Rightarrow> int option" where
  "stop_sequence_int d x =
     (case map_of x ''stop_sequence'' of
        None \<Rightarrow> Some d
      | Some None \<Rightarrow> None
      | Some (Some s) \<Rightarrow> py_int s)"

text \<open>
  \<^verbatim>\<open>xs.sort(key=f)\<close> where \<open>f\<close> may raise: Python computes all keys before it moves
  anything, so the sort fails as a whole when one key does.
\<close>

definition sort_by :: "('a \<Rightarrow> int option) \<Rightarrow> 'a list \<Rightarrow> 'a list option" where
  "sort_by f xs = (if list_all (\<lambda>x. f x \<noteq> None) xs then Some (sort_key (\<lambda>x. the (f x)) xs) else None)"

text \<open>Truthiness of an optional integer: \<^verbatim>\<open>None\<close> and \<open>0\<close> are false.\<close>

definition truthy_int :: "int option \<Rightarrow> bool" where
  "truthy_int x = (case x of None \<Rightarrow> False | Some n \<Rightarrow> n \<noteq> 0)"

record trip_detail =
  td_trip_id :: cell
  td_service_id :: cell
  td_direction_id :: cell
  td_trip_headsign :: cell
  td_first_stop_id :: cell
  td_first_stop_name :: cell
  td_last_stop_id :: cell
  td_last_stop_name :: cell
  td_departure_time :: cell
  td_arrival_time :: cell
  td_duration_minutes :: jnum
  td_num_stops :: nat

text \<open>
  \<^verbatim>\<open>next((s for s in stops_data if s.get('stop_id') == sid), {}).get('stop_name', 'N/A')\<close>.
\<close>

definition stop_name_of :: "row list \<Rightarrow> cell \<Rightarrow> cell" where
  "stop_name_of stops_data sid =
     (case find (\<lambda>s. get s ''stop_id'' = sid) stops_data of
        None \<Rightarrow> Some ''N/A''
      | Some s \<Rightarrow> get_d s ''stop_name'' (Some ''N/A''))"

text \<open>
  The duration of a trip of the detail bundle, from the departure of its first
  stop-time and the arrival of its last one:
  \<^verbatim>\<open>duration_sec = arr_sec - dep_sec if arr_sec and dep_sec else None\<close>,
  \<^verbatim>\<open>duration_min = duration_sec / 60 if duration_sec else None\<close>, and in the answer
  \<^verbatim>\<open>round(duration_min, 2) if duration_min else None\<close>.
\<close>

definition duration_minutes :: "int option \<Rightarrow> int option \<Rightarrow> jnum" where
  "duration_minutes dep_sec arr_sec =
     (let duration_sec = (if truthy_int arr_sec \<and> truthy_int dep_sec
                          then Some (the arr_sec - the dep_sec) else None);
          duration_min = (if truthy_int duration_sec
                          then Some (of_int (the duration_sec) / 60 :: rat) else None)
      in (case duration_min of
            None \<Rightarrow> JNull
          | Some m \<Rightarrow> if m \<noteq> 0 then JNum m else JNull))"

text \<open>
  The body of the loop over the trips of the route: no entry for a trip without
  stop-times, \<open>None\<close> when the sort by \<^verbatim>\<open>int(x.get('stop_sequence', 0))\<close> raises.
\<close>

definition trip_with_details :: "row list \<Rightarrow> row list \<Rightarrow> row \<Rightarrow> trip_detail list option" where
  "trip_with_details stop_times stops_data trip =
     (let trip_id = get trip ''trip_id'';
          trip_stop_times = filter (\<lambda>st. get st ''trip_id'' = trip_id) stop_times
      in if trip_stop_times = [] then Some []
         else
           (case sort_by (stop_sequence_int 0) trip_stop_times of
              None \<Rightarrow> None
            | Some sorted_times \<Rightarrow>
                (let first_stop = hd sorted_times;
                     last_stop = last sorted_times;
                     dep_sec = parse_time_to_seconds (get_d first_stop ''departure_time'' (Some []));
                     arr_sec = parse_time_to_seconds (get_d last_stop ''arrival_time'' (Some []))
                 in Some [\<lparr>td_trip_id = trip_id,
                           td_service_id = get trip ''service_id'',
                           td_direction_id = get trip ''direction_id'',
                           td_trip_headsign = get trip ''trip_headsign'',
                           td_first_stop_id = get first_stop ''stop_id'',
                           td_first_stop_name = stop_name_of stops_data (get first_stop ''stop_id''),
                           td_last_stop_id = get last_stop ''stop_id'',
                           td_last_stop_name = stop_name_of stops_data (get last_stop ''stop_id''),
                           td_departure_time = get first_stop ''departure_time'',
                           td_arrival_time = get last_stop ''arrival_time'',
                           td_duration_minutes = duration_minutes dep_sec arr_sec,
                           td_num_stops = length sorted_times\<rparr>])))"

text \<open>
  \<^verbatim>\<open>first_stops_by_trip\<close>: per trip id the stop-time with the least stop sequence (the
  earlier one at a tie), in the order in which the trip ids are met. The comparison
  \<^verbatim>\<open>int(st.get('stop_sequence', 999)) < int(cur.get('stop_sequence', 999))\<close> raises when
  one of the two conversions does.
\<close>

definition first_stops_step :: "row \<Rightarrow> (cell \<times> row) list option \<Rightarrow> (cell \<times> row) list option" where
  "first_stops_step st acc =
     (case acc of
        None \<Rightarrow> None
      | Some firsts \<Rightarrow>
          (let trip_id = get st ''trip_id'' in
           case map_of firsts trip_id of
             None \<Rightarrow> Some (firsts @ [(trip_id, st)])
           | Some cur \<Rightarrow>
               (case stop_sequence_int 999 st of
                  None \<Rightarrow> None
                | Some a \<Rightarrow>
                    (case stop_sequence_int 999 cur of
                       None \<Rightarrow> None
                     | Some b \<Rightarrow>
                         if a < b then Some (dd_modify trip_id (\<lambda>_. st) st firsts)
                         else Some firsts))))"

definition first_stops_by_trip :: "row list \<Rightarrow> (cell \<times> row) list option" where
  "first_stops_by_trip route_stop_times = fold first_stops_step route_stop_times (Some [])"

text \<open>
  The departures of the first stops that are true values (\<^verbatim>\<open>if dep_sec:\<close>), and the
  headways in minutes between them once sorted.
\<close>

definition first_stop_times :: "row list \<Rightarrow> int list" where
  "first_stop_times firsts =
     List.map_filter
       (\<lambda>st. let dep_sec = parse_time_to_seconds (get_d st ''departure_time'' (Some []))
             in if truthy_int dep_sec then dep_sec else None)
       firsts"

definition first_stop_headways :: "row list \<Rightarrow> rat list" where
  "first_stop_headways firsts =
     map (\<lambda>headway. of_int headway / 60) (positive_gaps (sort (first_stop_times firsts)))"

text \<open>
  \<^verbatim>\<open>avg_headway = sum(hs) / len(hs) if hs else None\<close> and, in the answer,
  \<^verbatim>\<open>round(avg_headway, 2) if avg_headway else None\<close>.
\<close>

definition avg_headway_minutes :: "rat list \<Rightarrow> jnum" where
  "avg_headway_minutes hs =
     (let avg_headway = (if hs = [] then None else Some (sum_list hs / of_nat (length hs)))
      in (case avg_headway of
            None \<Rightarrow> JNull
          | Some a \<Rightarrow> if a \<noteq> 0 then JNum a else JNull))"

record route_details =
  rd_route :: row
  rd_total_trips :: nat
  rd_trips :: "trip_detail list"
  rd_avg_headway_minutes :: jnum
  rd_total_stops :: nat

text \<open>
  \<^verbatim>\<open>get_route_details\<close>. A found route row has the column \<^verbatim>\<open>route_id\<close>, so it is not the
  empty dictionary and \<^verbatim>\<open>if not route\<close> is the test for \<^verbatim>\<open>None\<close>. Every exception inside
  the \<^verbatim>\<open>try\<close> gives the answer 500.
\<close>

definition get_route_details ::
  "row list \<Rightarrow> row list \<Rightarrow> row list \<Rightarrow> row list \<Rightarrow> string \<Rightarrow> http_error + route_details" where
  "get_route_details routes_data trips_data stop_times stops_data route_id =
     (if route_id = [] \<or> route_id = ''undefined'' then Inl Bad_request
      else
        (case find (\<lambda>r. get r ''route_id'' = Some route_id) routes_data of
           None \<Rightarrow> Inl Not_found
         | Some route \<Rightarrow>
             (let route_trips = filter (\<lambda>trip. get trip ''route_id'' = Some route_id) trips_data in
              case those (map (trip_with_details stop_times stops_data) route_trips) of
                None \<Rightarrow> Inl Server_error
              | Some details \<Rightarrow>
                  (let route_stop_times =
                         filter (\<lambda>st. get st ''trip_id'' \<in> set (map (\<lambda>t. get t ''trip_id'') route_trips))
                                stop_times
                   in case (if route_stop_times = [] then Some []
                            else first_stops_by_trip route_stop_times) of
                        None \<Rightarrow> Inl Server_error
                      | Some firsts \<Rightarrow>
                          Inr \<lparr>rd_route = route,
                               rd_total_trips = length route_trips,
                               rd_trips = concat details,
                               rd_avg_headway_minutes =
                                 avg_headway_minutes (first_stop_headways (map snd firsts)),
                               rd_total_stops =
                                 card (set (map (\<lambda>st. get st ''stop_id'') route_stop_times))\<rparr>))))"

text \<open>
  The headway samples of the bundle of a route: the first-stop headways of the
  stop-times of its trips, \<open>None\<close> when a stop-sequence comparison raises.
\<close>

definition route_headway_samples :: "row list \<Rightarrow> row list \<Rightarrow> string \<Rightarrow> rat list option" where
  "route_headway_samples trips_data stop_times route_id =
     (let route_trips = filter (\<lambda>trip. get trip ''route_id'' = Some route_id) trips_data;
          route_stop_times =
            filter (\<lambda>st. get st ''trip_id'' \<in> set (map (\<lambda>t. get t ''trip_id'') route_trips))
                   stop_times
      in map_option (\<lambda>firsts. first_stop_headways (map snd firsts))
           (first_stops_by_trip route_stop_times))"

text \<open>
  \<^verbatim>\<open>get_route_stats\<close>: the trips of the route and their number per \<^verbatim>\<open>service_id\<close>
  (\<^verbatim>\<open>'unknown'\<close> when the column is missing). The routes table is not read.
\<close>

record route_stats =
  rs_total_trips :: nat
  rs_trips_by_service :: "(cell \<times> nat) list"

definition get_route_stats :: "row list \<Rightarrow> string \<Rightarrow> route_stats" where
  "get_route_stats trips_data route_id =
     (if route_id = [] \<or> route_id = ''undefined''
      then \<lparr>rs_total_trips = 0, rs_trips_by_service = []\<rparr>
      else
        (let route_trips = filter (\<lambda>trip. get trip ''route_id'' = Some route_id) trips_data;
             service_counts =
               fold (\<lambda>trip counts.
                       dd_modify (get_d trip ''service_id'' (Some ''unknown'')) (\<lambda>n. n + 1) 0 counts)
                    route_trips []
         in \<lparr>rs_total_trips = length route_trips, rs_trips_by_service = service_counts\<rparr>))"

text \<open>
  \<^verbatim>\<open>get_route_stops\<close>: the stops used by the trips of the route, in the order of the
  stops table, with their coordinates converted. \<^verbatim>\<open>trip['trip_id']\<close> and
  \<^verbatim>\<open>st['stop_id']\<close> raise \<^verbatim>\<open>KeyError\<close> for a row without the column; the handler
  catches every exception and answers with the empty list. The conversion
  \<^verbatim>\<open>float(...)\<close> is the parameter \<open>to_float\<close>: the value of a text that Python reads as a
  finite number, \<open>None\<close> where \<^verbatim>\<open>float\<close> raises. The routes table is not read.
\<close>

record stop_view =
  sv_stop :: row
  sv_stop_lat :: "rat option"
  sv_stop_lon :: "rat option"

definition float_cell :: "(string \<Rightarrow> rat option) \<Rightarrow> cell \<Rightarrow> rat option" where
  "float_cell to_float c = (case c of None \<Rightarrow> None | Some s \<Rightarrow> to_float s)"

definition get_route_stops ::
  "(string \<Rightarrow> rat option) \<Rightarrow> row list \<Rightarrow> row list \<Rightarrow> row list \<Rightarrow> string \<Rightarrow> stop_view list" where
  "get_route_stops to_float trips_data stop_times stops_data route_id =
     (if route_id = [] \<or> route_id = ''undefined'' then []
      else
        (let route_trips = filter (\<lambda>trip. get trip ''route_id'' = Some route_id) trips_data in
         if \<not> list_all (\<lambda>trip. has trip ''trip_id'') route_trips then []
         else
           (let route_trip_ids = set (map (\<lambda>trip. get trip ''trip_id'') route_trips);
                route_stop_times = filter (\<lambda>st. get st ''trip_id'' \<in> route_trip_ids) stop_times
            in if \<not> list_all (\<lambda>st. has st ''stop_id'') route_stop_times then []
               else
                 (let route_stop_ids = set (map (\<lambda>st. get st ''stop_id'') route_stop_times);
                      route_stops = filter (\<lambda>stop. get stop ''stop_id'' \<in> route_stop_ids) stops_data
                  in map (\<lambda>stop. \<lparr>sv_stop = stop,
                                    sv_stop_lat = float_cell to_float (get stop ''stop_lat''),
                                    sv_stop_lon = float_cell to_float (get stop ''stop_lon'')\<rparr>)
                         route_stops))))"

text \<open>Whether a route id is the id of a row of the routes table.\<close>

definition known_route :: "row list \<Rightarrow> string \<Rightarrow> bool" where
  "known_route routes_data route_id = list_ex (\<lambda>r. get r ''route_id'' = Some route_id) routes_data"

text \<open>
  An instance of the conversion parameter for the examples: the value of a plain
  decimal numeral (an optional sign, digits, and optionally a point and more digits),
  with surrounding whitespace dropped, and \<open>None\<close> for every other text.
\<close>

fun frac_digits :: "rat \<Rightarrow> rat \<Rightarrow> string \<Rightarrow> rat option" where
  "frac_digits acc scale [] = Some acc"
| "frac_digits acc scale (c # cs) =
     (if is_digit c then frac_digits (acc + of_int (digit_val c) * scale) (scale / 10) cs
      else None)"

fun dec_digits :: "int \<Rightarrow> string \<Rightarrow> rat option" where
  "dec_digits acc [] = Some (of_int acc)"
| "dec_digits acc (c # cs) =
     (if is_digit c then dec_digits (acc * 10 + digit_val c) cs
      else if c = CHR ''.'' then frac_digits (of_int acc) (1 / 10) cs
      else None)"

definition decimal_unsigned :: "string \<Rightarrow> rat option" where
  "decimal_unsigned s =
     (case s of [] \<Rightarrow> None
      | c # cs \<Rightarrow> if is_digit c then dec_digits (digit_val c) cs else None)"

definition decimal_float :: "string \<Rightarrow> rat option" where
  "decimal_float s =
     (case int_strip s of
        [] \<Rightarrow> None
      | c # cs \<Rightarrow>
          if c = CHR ''-'' then map_option uminus (decimal_unsigned cs)
          else if c = CHR ''+'' then decimal_unsigned cs
          else decimal_unsigned (c # cs))"

subsection \<open>Route attribute edit: \<^verbatim>\<open>update_route\<close>\<close>

text \<open>
  The JSON body of the request is a dictionary; the model covers bodies whose values
  are texts and that carry no stop list (the part of the handler that rewrites
  \<^verbatim>\<open>stop_times.txt\<close> runs after the routes file is written and does not touch it).
  \<open>dict_set\<close> is the assignment \<^verbatim>\<open>route[k] = v\<close>: an existing key keeps its place, a new
  key goes to the end.
\<close>

type_synonym payload = "(string \<times> string) list"

definition dict_set :: "string \<Rightarrow> cell \<Rightarrow> row \<Rightarrow> row" where
  "dict_set k v r = dd_modify k (\<lambda>_. v) v r"

definition edit_fields :: "string list" where
  "edit_fields = [''route_short_name'', ''route_long_name'', ''route_color'', ''route_desc'']"

text \<open>The four statements \<^verbatim>\<open>if k in data: route[k] = data[k]\<close>.\<close>

definition apply_edit :: "payload \<Rightarrow> row \<Rightarrow> row" where
  "apply_edit data route =
     fold (\<lambda>k r. case map_of data k of None \<Rightarrow> r | Some v \<Rightarrow> dict_set k (Some v) r)
          edit_fields route"

text \<open>
  The loop over \<^verbatim>\<open>routes_data\<close>: the first row whose \<^verbatim>\<open>route_id\<close> equals the id of the
  request is edited in place and the loop stops; \<open>None\<close> when no row matches
  (\<^verbatim>\<open>route_updated\<close> stays false).
\<close>

fun update_first :: "string \<Rightarrow> payload \<Rightarrow> row list \<Rightarrow> row list option" where
  "update_first route_id data [] = None"
| "update_first route_id data (route # rest) =
     (if get route ''route_id'' = Some route_id then Some (apply_edit data route # rest)
      else map_option ((#) route) (update_first route_id data rest))"

text \<open>
  \<^verbatim>\<open>csv.DictWriter(f, fieldnames=routes_data[0].keys())\<close>, \<^verbatim>\<open>writeheader()\<close> and
  \<^verbatim>\<open>writerows(routes_data)\<close> on the file opened for writing. A row is written as the
  values of the field names, the empty text standing for a missing key and for
  \<^verbatim>\<open>None\<close>; a row with a key that is no field name raises \<^verbatim>\<open>ValueError\<close>, and the file
  then holds the rows written before it. The result is the table that the file holds
  afterwards and whether the write went through.
\<close>

definition written_row :: "string list \<Rightarrow> row \<Rightarrow> row" where
  "written_row fieldnames r =
     map (\<lambda>k. (k, Some (case get r k of None \<Rightarrow> [] | Some s \<Rightarrow> s))) fieldnames"

definition write_csv :: "row list \<Rightarrow> row list \<times> bool" where
  "write_csv rows =
     (let fieldnames = map fst (hd rows);
          ok_rows = takeWhile (\<lambda>r. list_all (\<lambda>k. k \<in> set fieldnames) (map fst r)) rows
      in (map (written_row fieldnames) ok_rows, length ok_rows = length rows))"

text \<open>
  The handler: the answer (\<open>None\<close> for success) and the routes table on disk
  afterwards. A body that is empty or has no key \<^verbatim>\<open>route_id\<close> is refused with 400; no
  matching row gives 404; in both cases nothing is written. After a match the list is
  not empty, so the test \<^verbatim>\<open>if routes_data\<close> before the write holds.
\<close>

definition update_route :: "row list \<Rightarrow> string \<Rightarrow> payload \<Rightarrow> http_error option \<times> row list" where
  "update_route routes_file route_id data =
     (if data = [] \<or> map_of data ''route_id'' = None then (Some Bad_request, routes_file)
      else
        (case update_first route_id data routes_file of
           None \<Rightarrow> (Some Not_found, routes_file)
         | Some routes_data \<Rightarrow>
             (case write_csv routes_data of
                (file', ok) \<Rightarrow> (if ok then None else Some Server_error, file'))))"

text \<open>
  A table as \<^verbatim>\<open>load_csv\<close> returns it for a file whose rows all have as many fields
  as the header: every row has the columns \<open>cols\<close>, in this order, and no \<^verbatim>\<open>None\<close> cell.
\<close>

definition complete_row :: "row \<Rightarrow> bool" where
  "complete_row r = list_all (\<lambda>kv. snd kv \<noteq> None) r"

definition rectangular :: "string list \<Rightarrow> row list \<Rightarrow> bool" where
  "rectangular cols rows \<longleftrightarrow>
     distinct cols \<and> list_all (\<lambda>r. map fst r = cols \<and> complete_row r) rows"

text \<open>A routes table with three columns and three rows, for the examples.\<close>

definition edit_row :: "string \<Rightarrow> string \<Rightarrow> string \<Rightarrow> row" where
  "edit_row rid short long =
     [(''route_id'', Some rid), (''route_short_name'', Some short), (''route_long_name'', Some long)]"

definition edit_cols :: "string list" where
  "edit_cols = [''route_id'', ''route_short_name'', ''route_long_name'']"

definition edit_routes :: "row list" where
  "edit_routes =
     [edit_row ''R1'' ''1A'' ''First'', edit_row ''R2'' ''2B'' ''Second'', edit_row ''R3'' ''3C'' ''Third'']"

subsection \<open>Path builder: \<^verbatim>\<open>get_route_path\<close>\<close>

text \<open>
  The answers of the single-route path builder that are no path: the two 404 answers
  \<^verbatim>\<open>'No trips found for route'\<close> and \<^verbatim>\<open>'No path found for route'\<close>, and an exception
  that no handler catches (500).
\<close>

datatype path_error = No_trips_found | No_path_found | Unhandled_exception

record stop_info =
  si_stop_id :: cell
  si_stop_name :: cell
  si_stop_sequence :: int

record route_path =
  rp_route_id :: string
  rp_coordinates :: "(rat \<times> rat) list"
  rp_stops :: "stop_info list"
  rp_total_stops :: nat

text \<open>
  \<^verbatim>\<open>max(keys, key=lambda tid: len(trip_paths[tid]))\<close> over the items of a dictionary in
  insertion order: the first entry with the greatest number of stop-times.
\<close>

fun first_longest :: "('k \<times> 'v list) \<Rightarrow> ('k \<times> 'v list) list \<Rightarrow> ('k \<times> 'v list)" where
  "first_longest best [] = best"
| "first_longest best (x # xs) =
     (if length (snd x) > length (snd best) then first_longest x xs else first_longest best xs)"

text \<open>
  \<^verbatim>\<open>float(stop.get(k, 0))\<close>: 0 when the column is missing, \<^verbatim>\<open>TypeError\<close> for \<^verbatim>\<open>None\<close>, else
  the conversion of the text.
\<close>

definition float_or_zero :: "(string \<Rightarrow> rat option) \<Rightarrow> row \<Rightarrow> string \<Rightarrow> rat option" where
  "float_or_zero to_float stop k =
     (case map_of stop k of
        None \<Rightarrow> Some 0
      | Some None \<Rightarrow> None
      | Some (Some s) \<Rightarrow> to_float s)"

text \<open>
  One round of the loop over the ordered stops: the stop row is the first one with the
  stop id of the stop-time; an empty or missing row and a failed conversion add
  nothing; the position is kept when \<^verbatim>\<open>lat != 0 and lon != 0\<close>. The stop entry is
  appended after the coordinate, inside the same \<^verbatim>\<open>try\<close>.
\<close>

definition path_step ::
  "(string \<Rightarrow> rat option) \<Rightarrow> row list \<Rightarrow> row \<Rightarrow>
   (rat \<times> rat) list \<times> stop_info list \<Rightarrow> (rat \<times> rat) list \<times> stop_info list" where
  "path_step to_float stops_data st acc =
     (let stop_id = get st ''stop_id'' in
      case find (\<lambda>s. get s ''stop_id'' = stop_id) stops_data of
        None \<Rightarrow> acc
      | Some stop \<Rightarrow>
          if stop = [] then acc
          else
            (case float_or_zero to_float stop ''stop_lat'' of
               None \<Rightarrow> acc
             | Some lat \<Rightarrow>
                 (case float_or_zero to_float stop ''stop_lon'' of
                    None \<Rightarrow> acc
                  | Some lon \<Rightarrow>
                      if lat \<noteq> 0 \<and> lon \<noteq> 0 then
                        (fst acc @ [(lat, lon)],
                         (case stop_sequence_int 0 st of
                            None \<Rightarrow> snd acc
                          | Some n \<Rightarrow>
                              snd acc @ [\<lparr>si_stop_id = stop_id,
                                          si_stop_name = get stop ''stop_name'',
                                          si_stop_sequence = n\<rparr>]))
                      else acc)))"

text \<open>
  \<^verbatim>\<open>get_route_path\<close>. \<^verbatim>\<open>trip['trip_id']\<close> raises for a trip of the route without the
  column, and the sort by \<^verbatim>\<open>int(x.get('stop_sequence', 0))\<close> may raise; the handler has
  no \<^verbatim>\<open>try\<close> around them.
\<close>

definition get_route_path ::
  "(string \<Rightarrow> rat option) \<Rightarrow> row list \<Rightarrow> row list \<Rightarrow> row list \<Rightarrow> string \<Rightarrow> path_error + route_path" where
  "get_route_path to_float trips_data stop_times stops_data route_id =
     (let route_trips = filter (\<lambda>trip. get trip ''route_id'' = Some route_id) trips_data in
      if \<not> list_all (\<lambda>trip. has trip ''trip_id'') route_trips then Inl Unhandled_exception
      else if route_trips = [] then Inl No_trips_found
      else
        (let route_trip_ids = set (map (\<lambda>trip. get trip ''trip_id'') route_trips);
             route_stop_times = filter (\<lambda>st. get st ''trip_id'' \<in> route_trip_ids) stop_times;
             trip_paths = fold (\<lambda>st. dd_append (get st ''trip_id'') st) route_stop_times []
         in case those (map (\<lambda>(tid, sts). map_option (Pair tid) (sort_by (stop_sequence_int 0) sts))
                            trip_paths) of
              None \<Rightarrow> Inl Unhandled_exception
            | Some sorted_paths \<Rightarrow>
                (case sorted_paths of
                   [] \<Rightarrow> Inl No_path_found
                 | p # ps \<Rightarrow>
                     (let ordered_stops = snd (first_longest p ps);
                          (path_coordinates, stop_infos) =
                            fold (path_step to_float stops_data) ordered_stops ([], [])
                      in Inr \<lparr>rp_route_id = route_id, rp_coordinates = path_coordinates,
                              rp_stops = stop_infos,
                              rp_total_stops = length path_coordinates\<rparr>))))"

subsection \<open>Path builder: \<^verbatim>\<open>get_all_route_paths\<close>\<close>

text \<open>
  \<^verbatim>\<open>c.strip() if c else ''\<close> for a cell, and the two lookup tables built before the
  loop: the stops by stripped id (a later row replaces an earlier one) and the
  stop-times grouped by stripped trip id.
\<close>

definition strip_cell :: "cell \<Rightarrow> string" where
  "strip_cell c = (if truthy c then strip (the c) else [])"

definition stops_dict :: "row list \<Rightarrow> (string \<rightharpoonup> row)" where
  "stops_dict stops_data =
     fold (\<lambda>stop m. let stop_id = strip_cell (get stop ''stop_id'')
                     in if stop_id \<noteq> [] then m(stop_id \<mapsto> stop) else m)
          stops_data Map.empty"

definition stop_times_by_trip :: "row list \<Rightarrow> (string \<times> row list) list" where
  "stop_times_by_trip stop_times =
     fold (\<lambda>st groups. let trip_id = strip_cell (get st ''trip_id'')
                        in if trip_id \<noteq> [] then dd_append trip_id st groups else groups)
          stop_times []"

text \<open>
  The route id of a routes row: the stripped \<^verbatim>\<open>route_id\<close>, or, when that is \<^verbatim>\<open>None\<close>,
  the first true value among the columns \<^verbatim>\<open>route_short_name\<close>, \<^verbatim>\<open>Route ID\<close> and \<^verbatim>\<open>id\<close>;
  \<open>None\<close> when the row is skipped.
\<close>

definition batch_route_id :: "row \<Rightarrow> string option" where
  "batch_route_id route =
     (let route_id =
            (case get route ''route_id'' of
               None \<Rightarrow>
                 (let alt = (if truthy (get route ''route_short_name'') then get route ''route_short_name''
                             else if truthy (get route ''Route ID'') then get route ''Route ID''
                             else if truthy (get route ''id'') then get route ''id''
                             else None)
                  in if truthy alt then Some (strip (the alt)) else None)
             | Some raw \<Rightarrow> if raw \<noteq> [] then Some (strip raw) else None)
      in (case route_id of
            None \<Rightarrow> None
          | Some rid \<Rightarrow> if rid = [] then None else Some rid))"

text \<open>
  The sort key \<^verbatim>\<open>int(x.get('stop_sequence', 0) or 0)\<close>, and the sort inside
  \<^verbatim>\<open>try ... except (ValueError, TypeError): continue\<close>, which leaves a group as it is
  when a key cannot be computed.
\<close>

definition batch_sequence_int :: "row \<Rightarrow> int option" where
  "batch_sequence_int x =
     (if truthy (get x ''stop_sequence'') then py_int (the (get x ''stop_sequence'')) else Some 0)"

definition batch_sort :: "row list \<Rightarrow> row list" where
  "batch_sort sts = (case sort_by batch_sequence_int sts of None \<Rightarrow> sts | Some sorted_sts \<Rightarrow> sorted_sts)"

text \<open>
  One round of the coordinate loop. \<^verbatim>\<open>stop.get('stop_lat', '0').strip()\<close> raises
  \<^verbatim>\<open>AttributeError\<close> on \<^verbatim>\<open>None\<close>, which only the handler around the whole route catches:
  the result \<open>None\<close> drops the route. \<open>Some []\<close> adds nothing, \<open>Some [p]\<close> adds the
  position \<open>p\<close>, which passed the test
  \<^verbatim>\<open>-90 <= lat <= 90 and -180 <= lon <= 180 and (lat != 0 or lon != 0)\<close>.
\<close>

definition strip_or_raise :: "row \<Rightarrow> string \<Rightarrow> string option" where
  "strip_or_raise stop k =
     (case map_of stop k of
        None \<Rightarrow> Some ''0''
      | Some None \<Rightarrow> None
      | Some (Some s) \<Rightarrow> Some (strip s))"

definition batch_point ::
  "(string \<Rightarrow> rat option) \<Rightarrow> (string \<rightharpoonup> row) \<Rightarrow> row \<Rightarrow> (rat \<times> rat) list option" where
  "batch_point to_float sd st =
     (let stop_id = strip_cell (get st ''stop_id'') in
      if stop_id = [] then Some []
      else
        (case sd stop_id of
           None \<Rightarrow> Some []
         | Some stop \<Rightarrow>
             if stop = [] then Some []
             else
               (case strip_or_raise stop ''stop_lat'' of
                  None \<Rightarrow> None
                | Some lat_str \<Rightarrow>
                    (case strip_or_raise stop ''stop_lon'' of
                       None \<Rightarrow> None
                     | Some lon_str \<Rightarrow>
                         if lat_str = [] \<or> lon_str = [] then Some []
                         else
                           (case to_float lat_str of
                              None \<Rightarrow> Some []
                            | Some lat \<Rightarrow>
                                (case to_float lon_str of
                                   None \<Rightarrow> Some []
                                 | Some lon \<Rightarrow>
                                     if - 90 \<le> lat \<and> lat \<le> 90 \<and> - 180 \<le> lon \<and> lon \<le> 180 \<and>
                                        (lat \<noteq> 0 \<or> lon \<noteq> 0)
                                     then Some [(lat, lon)] else Some []))))))"

fun batch_coordinates ::
  "(string \<Rightarrow> rat option) \<Rightarrow> (string \<rightharpoonup> row) \<Rightarrow> row list \<Rightarrow> (rat \<times> rat) list option" where
  "batch_coordinates to_float sd [] = Some []"
| "batch_coordinates to_float sd (st # rest) =
     (case batch_point to_float sd st of
        None \<Rightarrow> None
      | Some pts \<Rightarrow> map_option ((@) pts) (batch_coordinates to_float sd rest))"

record batch_path =
  bp_route_id :: string
  bp_route :: row
  bp_coordinates :: "(rat \<times> rat) list"
  bp_total_stops :: nat

text \<open>
  The body of the loop over the routes: the paths that the row adds to the answer (none
  or one). \<^verbatim>\<open>route_trip_ids\<close> is a Python set of texts, and the order in which
  \<^verbatim>\<open>for trip_id in route_trip_ids\<close> visits it is not fixed by the program: the parameter
  \<open>set_order\<close> gives this order for the list of the ids in insertion order. In the
  source the line \<^verbatim>\<open>if trip_id:\<close> of the grouping loop has lost the indentation of its
  body; the guard is taken to cover the two statements after it. It always holds there,
  since the groups of \<^verbatim>\<open>stop_times_by_trip\<close> hold only stop-times with a non-empty
  stripped trip id.
\<close>

definition batch_route ::
  "(string \<Rightarrow> rat option) \<Rightarrow> (string list \<Rightarrow> string list) \<Rightarrow>
   row list \<Rightarrow> (string \<times> row list) list \<Rightarrow> (string \<rightharpoonup> row) \<Rightarrow> row \<Rightarrow> batch_path list" where
  "batch_route to_float set_order trips_data by_trip sd route =
     (case batch_route_id route of
        None \<Rightarrow> []
      | Some route_id \<Rightarrow>
          (let route_trip_ids =
                 set_order (remdups
                   (filter (\<lambda>tid. tid \<noteq> [])
                      (map (\<lambda>trip. strip_cell (get trip ''trip_id''))
                         (filter (\<lambda>trip. strip_cell (get trip ''route_id'') = route_id) trips_data))))
           in if route_trip_ids = [] then []
              else
                (let route_stop_times =
                       concat (map (\<lambda>tid. case map_of by_trip tid of None \<Rightarrow> [] | Some sts \<Rightarrow> sts)
                                   route_trip_ids)
                 in if route_stop_times = [] then []
                    else
                      (let trip_paths =
                             fold (\<lambda>st groups. let trip_id = strip_cell (get st ''trip_id'')
                                                in if trip_id \<noteq> [] then dd_append trip_id st groups
                                                   else groups)
                                  route_stop_times [];
                           sorted_paths = map (\<lambda>(tid, sts). (tid, batch_sort sts)) trip_paths
                       in (case sorted_paths of
                             [] \<Rightarrow> []
                           | p # ps \<Rightarrow>
                               (case batch_coordinates to_float sd (snd (first_longest p ps)) of
                                  None \<Rightarrow> []
                                | Some path_coordinates \<Rightarrow>
                                    if length path_coordinates \<ge> 2
                                    then [\<lparr>bp_route_id = route_id, bp_route = route,
                                           bp_coordinates = path_coordinates,
                                           bp_total_stops = length path_coordinates\<rparr>]
                                    else []))))))"

text \<open>
  \<^verbatim>\<open>get_all_route_paths\<close>: the empty list when \<^verbatim>\<open>routes.txt\<close> is missing or empty, else
  the paths of the rows in the order of the routes table.
\<close>

definition get_all_route_paths ::
  "(string \<Rightarrow> rat option) \<Rightarrow> (string list \<Rightarrow> string list) \<Rightarrow>
   row list option \<Rightarrow> row list \<Rightarrow> row list \<Rightarrow> row list \<Rightarrow> batch_path list" where
  "get_all_route_paths to_float set_order routes_file trips_data stop_times stops_data =
     (case routes_file of
        None \<Rightarrow> []
      | Some routes_data \<Rightarrow>
          concat (map (batch_route to_float set_order trips_data
                         (stop_times_by_trip stop_times) (stops_dict stops_data))
                      routes_data))"

text \<open>The validity of a position as the specification states it.\<close>

definition valid_position :: "rat \<times> rat \<Rightarrow> bool" where
  "valid_position p \<longleftrightarrow>
     - 90 \<le> fst p \<and> fst p \<le> 90 \<and> - 180 \<le> snd p \<and> snd p \<le> 180 \<and> \<not> (fst p = 0 \<and> snd p = 0)"

subsection \<open>The derived metrics as the specification words them\<close>

text \<open>
  The definitions of this subsection do not come from the source: they say what the
  specification says, and the theorems compare them with the embedded code.

  Headway at a (route, stop) pair: the stop-times of trips of the route at the stop
  with a valid departure, in file order; their departures sorted ascending; the
  differences \<open>departure[i] - departure[i-1]\<close> for \<open>i \<ge> 1\<close>; the positive ones.
\<close>

definition serves :: "row list \<Rightarrow> cell \<Rightarrow> cell \<Rightarrow> row \<Rightarrow> bool" where
  "serves trips_data r s st \<longleftrightarrow>
     has st ''stop_id'' \<and> has st ''trip_id'' \<and>
     trip_to_route trips_data (get st ''trip_id'') = Some r \<and> get st ''stop_id'' = s"

definition pair_departures :: "row list \<Rightarrow> row list \<Rightarrow> cell \<Rightarrow> cell \<Rightarrow> int list" where
  "pair_departures trips_data stop_times r s =
     List.map_filter (\<lambda>st. parse_time_to_seconds (get_d st ''departure_time'' (Some [])))
       (filter (serves trips_data r s) stop_times)"

definition headways_of :: "int list \<Rightarrow> int list" where
  "headways_of deps =
     filter (\<lambda>h. h > 0) (map (\<lambda>i. deps ! i - deps ! (i - 1)) [1..<length deps])"

definition pair_headways :: "row list \<Rightarrow> row list \<Rightarrow> cell \<Rightarrow> cell \<Rightarrow> int list" where
  "pair_headways trips_data stop_times r s =
     headways_of (sort (pair_departures trips_data stop_times r s))"

text \<open>
  Trip duration: the arrival and departure seconds of all stop-times of the trip that
  parse; the duration is their maximum minus their minimum, and there is none when no
  time parses.
\<close>

definition trip_seconds :: "row list \<Rightarrow> string \<Rightarrow> int list" where
  "trip_seconds stop_times tid =
     concat (map (\<lambda>st.
                    (case parse_time_to_seconds (get_d st ''arrival_time'' (Some [])) of
                       None \<Rightarrow> [] | Some a \<Rightarrow> [a]) @
                    (case parse_time_to_seconds (get_d st ''departure_time'' (Some [])) of
                       None \<Rightarrow> [] | Some d \<Rightarrow> [d]))
                 (filter (\<lambda>st. get st ''trip_id'' = Some tid) stop_times))"

definition trip_duration :: "row list \<Rightarrow> string \<Rightarrow> int option" where
  "trip_duration stop_times tid =
     (if trip_seconds stop_times tid = [] then None
      else Some (Max (set (trip_seconds stop_times tid)) - Min (set (trip_seconds stop_times tid))))"



subsection \<open>Auxiliary notions of the proofs\<close>

text \<open>The value of a key in a \<^verbatim>\<open>defaultdict\<close> with default \<open>d\<close>.\<close>

definition dd_value :: "'v \<Rightarrow> ('k \<times> 'v) list \<Rightarrow> 'k \<Rightarrow> 'v" where
  "dd_value d xs k = (case map_of xs k of None \<Rightarrow> d | Some v \<Rightarrow> v)"

text \<open>What one stop-time contributes to the two passes of \<^verbatim>\<open>get_kpis\<close>.\<close>

definition headway_event :: "row list \<Rightarrow> row \<Rightarrow> ((cell \<times> cell) \<times> dep_entry) option" where
  "headway_event trips_data st =
     (if has st ''stop_id'' \<and> has st ''trip_id'' then
        (case trip_to_route trips_data (get st ''trip_id'') of
           None \<Rightarrow> None
         | Some route_id \<Rightarrow>
             (case parse_time_to_seconds (get_d st ''departure_time'' (Some [])) of
                None \<Rightarrow> None
              | Some dep_sec \<Rightarrow>
                  Some ((route_id, get st ''stop_id''),
                        \<lparr>entry_trip_id = get st ''trip_id'', departure_sec = dep_sec,
                         entry_route_id = route_id\<rparr>)))
      else None)"

definition duration_events :: "row \<Rightarrow> (string \<times> int) list" where
  "duration_events st =
     (if \<not> truthy (get st ''trip_id'') then []
      else
        (case parse_time_to_seconds (get_d st ''arrival_time'' (Some [])) of
           None \<Rightarrow> [] | Some a \<Rightarrow> [(the (get st ''trip_id''), a)]) @
        (case parse_time_to_seconds (get_d st ''departure_time'' (Some [])) of
           None \<Rightarrow> [] | Some d \<Rightarrow> [(the (get st ''trip_id''), d)]))"

subsection \<open>Example tables\<close>

text \<open>
  One route and one stop with four trips that leave at 08:15:00, 08:00:00, 08:30:00 and
  08:15:00 (in file order): the departures 08:00:00, 08:15:00, 08:15:00, 08:30:00 of
  the specification's headway example.
\<close>

definition ex_trip :: "string \<Rightarrow> string \<Rightarrow> row" where
  "ex_trip tid rid = [(''route_id'', Some rid), (''service_id'', Some ''WK''), (''trip_id'', Some tid)]"

definition ex_stop_time :: "string \<Rightarrow> cell \<Rightarrow> cell \<Rightarrow> string \<Rightarrow> string \<Rightarrow> row" where
  "ex_stop_time tid arr dep sid seq =
     [(''trip_id'', Some tid), (''arrival_time'', arr), (''departure_time'', dep),
      (''stop_id'', Some sid), (''stop_sequence'', Some seq)]"

definition headway_trips :: "row list" where
  "headway_trips = [ex_trip ''T1'' ''R1'', ex_trip ''T2'' ''R1'', ex_trip ''T3'' ''R1'', ex_trip ''T4'' ''R1'']"

definition headway_stop_times :: "row list" where
  "headway_stop_times =
     [ex_stop_time ''T1'' (Some ''08:15:00'') (Some ''08:15:00'') ''S1'' ''1'',
      ex_stop_time ''T2'' (Some ''08:00:00'') (Some ''08:00:00'') ''S1'' ''1'',
      ex_stop_time ''T3'' (Some ''08:30:00'') (Some ''08:30:00'') ''S1'' ''1'',
      ex_stop_time ''T4'' (Some ''08:15:00'') (Some ''08:15:00'') ''S1'' ''1'']"

text \<open>
  One trip with two stop-times: no arrival and departure 08:00:00 (28800 s), then
  arrival 08:10:00 (29400 s) and departure 08:11:00 (29460 s).
\<close>

definition duration_stop_times :: "row list" where
  "duration_stop_times =
     [ex_stop_time ''T1'' None (Some ''08:00:00'') ''S1'' ''1'',
      ex_stop_time ''T1'' (Some ''08:10:00'') (Some ''08:11:00'') ''S2'' ''2'']"

text \<open>
  Three stop-times at one stop, in file order 7:50:00, 24:10:00, 08:05:00, of trips of
  route \<open>R1\<close>; the routes table gives the route a short name.
\<close>

definition board_routes :: "row list" where
  "board_routes = [[(''route_id'', Some ''R1''), (''route_short_name'', Some ''1A'')]]"

definition board_stop_times :: "row list" where
  "board_stop_times =
     [ex_stop_time ''T1'' (Some ''7:50:00'') (Some ''7:50:00'') ''S1'' ''1'',
      ex_stop_time ''T2'' (Some ''24:10:00'') (Some ''24:10:00'') ''S1'' ''1'',
      ex_stop_time ''T3'' (Some ''08:05:00'') (Some ''08:05:00'') ''S1'' ''1'']"

text \<open>
  A route whose three trips leave their first stop at 00:00:00, 00:10:00 and 00:30:00
  and reach the second stop twenty minutes later.
\<close>

definition midnight_trips :: "row list" where
  "midnight_trips = [ex_trip ''T1'' ''R1'', ex_trip ''T2'' ''R1'', ex_trip ''T3'' ''R1'']"

definition midnight_stop_times :: "row list" where
  "midnight_stop_times =
     [ex_stop_time ''T1'' (Some ''00:00:00'') (Some ''00:00:00'') ''S1'' ''1'',
      ex_stop_time ''T1'' (Some ''00:20:00'') (Some ''00:20:00'') ''S2'' ''2'',
      ex_stop_time ''T2'' (Some ''00:10:00'') (Some ''00:10:00'') ''S1'' ''1'',
      ex_stop_time ''T2'' (Some ''00:30:00'') (Some ''00:30:00'') ''S2'' ''2'',
      ex_stop_time ''T3'' (Some ''00:30:00'') (Some ''00:30:00'') ''S1'' ''1'',
      ex_stop_time ''T3'' (Some ''00:50:00'') (Some ''00:50:00'') ''S2'' ''2'']"

text \<open>A snapshot with the routes \<open>R1\<close> and \<open>R2\<close>, of which only \<open>R1\<close> has trips.\<close>

definition two_routes :: "row list" where
  "two_routes = [[(''route_id'', Some ''R1''), (''route_short_name'', Some ''1A'')],
                 [(''route_id'', Some ''R2''), (''route_short_name'', Some ''2B'')]]"

text \<open>
  Stops for the examples: \<open>SA\<close> at (45, 10), \<open>SB\<close> at (0, 10) on the equator, \<open>SC\<close> at
  (95, 10) beyond the pole, \<open>SD\<close> at (46, 11), \<open>SE\<close> at (47, 12) and \<open>SZ\<close> at (0, 0).
\<close>

definition ex_stop :: "string \<Rightarrow> string \<Rightarrow> string \<Rightarrow> row" where
  "ex_stop sid lat lon =
     [(''stop_id'', Some sid), (''stop_name'', Some sid), (''stop_lat'', Some lat), (''stop_lon'', Some lon)]"

definition path_stops :: "row list" where
  "path_stops = [ex_stop ''SA'' ''45'' ''10'', ex_stop ''SB'' ''0'' ''10'', ex_stop ''SC'' ''95'' ''10'',
                 ex_stop ''SD'' ''46'' ''11'', ex_stop ''SE'' ''47'' ''12'', ex_stop ''SZ'' ''0'' ''0'']"

text \<open>Route \<open>R1\<close> with one trip over \<open>SA\<close>, \<open>SB\<close>, \<open>SC\<close>.\<close>

definition bounds_trips :: "row list" where
  "bounds_trips = [ex_trip ''T1'' ''R1'']"

definition bounds_stop_times :: "row list" where
  "bounds_stop_times =
     [ex_stop_time ''T1'' (Some ''08:00:00'') (Some ''08:00:00'') ''SA'' ''1'',
      ex_stop_time ''T1'' (Some ''08:10:00'') (Some ''08:10:00'') ''SB'' ''2'',
      ex_stop_time ''T1'' (Some ''08:20:00'') (Some ''08:20:00'') ''SC'' ''3'']"

text \<open>
  Route \<open>R1\<close> with one trip over \<open>SA\<close> and \<open>SZ\<close> (one valid coordinate) and route \<open>R2\<close>
  with one trip over \<open>SA\<close>, \<open>SD\<close>, \<open>SE\<close> (three valid coordinates).
\<close>

definition short_trips :: "row list" where
  "short_trips = [ex_trip ''T1'' ''R1'', ex_trip ''T2'' ''R2'']"

definition short_stop_times :: "row list" where
  "short_stop_times =
     [ex_stop_time ''T1'' (Some ''08:00:00'') (Some ''08:00:00'') ''SA'' ''1'',
      ex_stop_time ''T1'' (Some ''08:10:00'') (Some ''08:10:00'') ''SZ'' ''2'',
      ex_stop_time ''T2'' (Some ''09:00:00'') (Some ''09:00:00'') ''SA'' ''1'',
      ex_stop_time ''T2'' (Some ''09:10:00'') (Some ''09:10:00'') ''SD'' ''2'',
      ex_stop_time ''T2'' (Some ''09:20:00'') (Some ''09:20:00'') ''SE'' ''3'']"

text \<open>
  A board with two stop-times whose departure time is empty or \<^verbatim>\<open>None\<close> after one
  with a departure at 08:05:00.
\<close>

definition empty_board_stop_times :: "row list" where
  "empty_board_stop_times =
     [ex_stop_time ''T1'' (Some ''08:05:00'') (Some ''08:05:00'') ''S1'' ''1'',
      ex_stop_time ''T2'' (Some []) (Some []) ''S1'' ''1'',
      ex_stop_time ''T3'' None None ''S1'' ''1'']"

text \<open>
  The single trip of route \<open>R1\<close> with an empty departure at its first stop and an
  arrival at 08:10:00 at its second one.
\<close>

definition lonely_stop_times :: "row list" where
  "lonely_stop_times =
     [ex_stop_time ''T1'' (Some []) (Some []) ''SA'' ''1'',
      ex_stop_time ''T1'' (Some ''08:10:00'') (Some ''08:10:00'') ''SB'' ''2'']"

section \<open>Properties\<close>

subsection \<open>Insertion-ordered dictionaries\<close>

lemma map_of_dd_modify:
  "map_of (dd_modify k g d xs) k' =
     (if k' = k then Some (g (dd_value d xs k)) else map_of xs k')"
  by (induction xs) (auto simp: dd_value_def)

lemma keys_dd_modify:
  "map fst (dd_modify k g d xs) = (if k \<in> fst ` set xs then map fst xs else map fst xs @ [k])"
  by (induction xs) (auto simp: image_iff, force)

lemma set_keys_dd_modify: "fst ` set (dd_modify k g d xs) = insert k (fst ` set xs)"
  using arg_cong[OF keys_dd_modify[of k g d xs], of set] by (auto split: if_splits)

lemma distinct_dd_modify:
  "distinct (map fst xs) \<Longrightarrow> distinct (map fst (dd_modify k g d xs))"
  by (simp add: keys_dd_modify)

lemma dd_value_dd_modify:
  "dd_value d (dd_modify k g d xs) k' = (if k' = k then g (dd_value d xs k) else dd_value d xs k')"
  by (simp add: dd_value_def map_of_dd_modify)

lemma fold_dd_value:
  "dd_value d (fold (\<lambda>(k, t). dd_modify k (g t) d) evs acc) k =
     fold g (map snd (filter (\<lambda>e. fst e = k) evs)) (dd_value d acc k)"
  by (induction evs arbitrary: acc) (auto simp: dd_value_dd_modify)

lemma fold_dd_keys:
  "set (map fst (fold (\<lambda>(k, t). dd_modify k (g t) d) evs acc)) = fst ` set acc \<union> fst ` set evs"
proof (induction evs arbitrary: acc)
  case Nil
  then show ?case by simp
next
  case (Cons e evs)
  obtain k t where e: "e = (k, t)" by (cases e)
  show ?case using Cons.IH[of "dd_modify k (g t) d acc"]
    by (simp add: e set_keys_dd_modify)
qed

lemma fold_dd_distinct:
  "distinct (map fst acc) \<Longrightarrow> distinct (map fst (fold (\<lambda>(k, t). dd_modify k (g t) d) evs acc))"
  by (induction evs arbitrary: acc) (auto simp: distinct_dd_modify)

lemma fold_dd_entry:
  assumes "(k, v) \<in> set (fold (\<lambda>(k, t). dd_modify k (g t) d) evs [])"
  shows "v = fold g (map snd (filter (\<lambda>e. fst e = k) evs)) d"
proof -
  let ?r = "fold (\<lambda>(k, t). dd_modify k (g t) d) evs []"
  have "distinct (map fst ?r)" by (rule fold_dd_distinct) simp
  with assms have "map_of ?r k = Some v" by simp
  then have "dd_value d ?r k = v" by (simp add: dd_value_def)
  then show ?thesis using fold_dd_value[of d g evs "[]" k] by (simp add: dd_value_def)
qed

lemma fold_snoc: "fold (\<lambda>v vs. vs @ [v]) xs acc = acc @ xs"
  by (induction xs arbitrary: acc) auto

lemma fold_map_filter:
  "fold (\<lambda>x acc. case ev x of None \<Rightarrow> acc | Some y \<Rightarrow> h y acc) xs acc = fold h (List.map_filter ev xs) acc"
  by (induction xs arbitrary: acc) (auto split: option.splits)

lemma fold_concat_map:
  "fold (\<lambda>x acc. fold h (ev x) acc) xs acc = fold h (concat (map ev xs)) acc"
  by (induction xs arbitrary: acc) auto

lemma fold_note_time_Some:
  "fold note_time ts (Some a, Some b) = (Some (Min (insert a (set ts))), Some (Max (insert b (set ts))))"
proof (induction ts arbitrary: a b)
  case Nil
  then show ?case by simp
next
  case (Cons t ts)
  have step: "note_time t (Some a, Some b) = (Some (min t a), Some (max t b))"
    by (auto simp: note_time_def min_def max_def)
  have lo: "Min (insert (min t a) (set ts)) = Min (insert a (set (t # ts)))"
    by (cases "set ts = {}") (simp_all add: min.assoc min.commute min.left_commute)
  have hi: "Max (insert (max t b) (set ts)) = Max (insert b (set (t # ts)))"
    by (cases "set ts = {}") (simp_all add: max.assoc max.commute max.left_commute)
  show ?case using Cons.IH[of "min t a" "max t b"] step lo hi
    by (simp del: Min_insert Max_insert)
qed

lemma fold_note_time:
  "fold note_time ts (None, None) =
     (if ts = [] then (None, None) else (Some (Min (set ts)), Some (Max (set ts))))"
proof (cases ts)
  case Nil
  then show ?thesis by simp
next
  case (Cons t ts')
  have "note_time t (None, None) = (Some t, Some t)" by (simp add: note_time_def)
  then show ?thesis by (simp add: Cons fold_note_time_Some)
qed

lemma map_insort_key: "map f (insort_key f x xs) = insort (f x) (map f xs)"
  by (induction xs) auto

lemma map_sort_key: "map f (sort_key f xs) = sort (map f xs)"
  by (induction xs) (auto simp: map_insort_key)

subsection \<open>Integer texts and splitting\<close>














subsection \<open>The two aggregation passes of the KPI computation\<close>

lemma positive_gaps_headways_of: "positive_gaps xs = headways_of xs"
proof (induction xs rule: positive_gaps.induct)
  case (1 a b rest)
  define U where "U = [1..<length (b # rest)]"
  define f where "f = (\<lambda>i. (a # b # rest) ! i - (a # b # rest) ! (i - 1))"
  define g where "g = (\<lambda>i. (b # rest) ! i - (b # rest) ! (i - 1))"
  have u: "[1..<length (a # b # rest)] = 1 # map Suc U"
    unfolding U_def by (simp add: map_Suc_upt upt_conv_Cons del: upt_Suc)
  have m: "map (f \<circ> Suc) U = map g U"
    unfolding U_def f_def g_def by (rule map_cong) (auto simp: nth_Cons')
  have "headways_of (a # b # rest) = filter (\<lambda>h. h > 0) (map f (1 # map Suc U))"
    unfolding headways_of_def u f_def ..
  also have "\<dots> = filter (\<lambda>h. h > 0) (f 1 # map g U)"
    unfolding list.map map_map m ..
  also have "f 1 = b - a" by (simp add: f_def)
  finally have "headways_of (a # b # rest) = filter (\<lambda>h. h > 0) ((b - a) # map g U)" .
  moreover have "headways_of (b # rest) = filter (\<lambda>h. h > 0) (map g U)"
    unfolding headways_of_def U_def g_def ..
  ultimately show ?case using 1 by simp
qed (simp_all add: headways_of_def)

lemma route_stop_times_fold:
  "kpi_route_stop_times trips sts =
     fold (\<lambda>(k, e). dd_modify k (\<lambda>vs. vs @ [e]) []) (List.map_filter (headway_event trips) sts) []"
proof -
  have "kpi_route_stop_times trips sts =
      fold (\<lambda>st acc. case headway_event trips st of None \<Rightarrow> acc | Some y \<Rightarrow> (\<lambda>(k, e). dd_append k e) y acc) sts []"
    unfolding kpi_route_stop_times_def
    by (rule arg_cong[where f = "\<lambda>f. fold f sts []"])
       (auto simp: fun_eq_iff headway_event_def split: option.splits)
  also have "\<dots> = fold (\<lambda>(k, e). dd_append k e) (List.map_filter (headway_event trips) sts) []"
    by (rule fold_map_filter)
  finally show ?thesis by (simp add: dd_append_def[abs_def])
qed

lemma events_pair_departures:
  "map departure_sec (map snd (filter (\<lambda>e. fst e = (r, s)) (List.map_filter (headway_event trips) sts)))
     = pair_departures trips sts r s"
  by (induction sts)
     (auto simp: pair_departures_def headway_event_def serves_def List.map_filter_simps
           split: option.splits)

lemma route_stop_times_entry:
  assumes "((r, s), es) \<in> set (kpi_route_stop_times trips sts)"
  shows "map departure_sec es = pair_departures trips sts r s"
proof -
  have "es = fold (\<lambda>e vs. vs @ [e])
               (map snd (filter (\<lambda>e. fst e = (r, s)) (List.map_filter (headway_event trips) sts))) []"
    using assms unfolding route_stop_times_fold by (rule fold_dd_entry)
  then show ?thesis using events_pair_departures[of r s trips sts] by (simp add: fold_snoc)
qed

lemma route_stop_times_keys:
  "set (map fst (kpi_route_stop_times trips sts)) = {(r, s). pair_departures trips sts r s \<noteq> []}"
proof -
  have "fst ` set (List.map_filter (headway_event trips) sts) = {(r, s). pair_departures trips sts r s \<noteq> []}"
    (is "?L = ?R")
  proof (rule set_eqI)
    fix k :: "cell \<times> cell"
    obtain r s where k: "k = (r, s)" by (cases k)
    have "k \<in> ?L \<longleftrightarrow> filter (\<lambda>e. fst e = (r, s)) (List.map_filter (headway_event trips) sts) \<noteq> []"
      by (force simp: k filter_empty_conv image_iff)
    also have "\<dots> \<longleftrightarrow> pair_departures trips sts r s \<noteq> []"
      using events_pair_departures[of r s trips sts] by (metis map_is_Nil_conv)
    finally show "k \<in> ?L \<longleftrightarrow> k \<in> ?R" by (simp add: k)
  qed
  then show ?thesis unfolding route_stop_times_fold fold_dd_keys by simp
qed

lemma route_stop_times_distinct: "distinct (map fst (kpi_route_stop_times trips sts))"
  unfolding route_stop_times_fold by (rule fold_dd_distinct) simp

lemma kpi_headways_pairs:
  "kpi_headways trips sts =
     concat (map (\<lambda>(r, s). pair_headways trips sts r s) (map fst (kpi_route_stop_times trips sts)))"
proof -
  have "map (\<lambda>(key, times). positive_gaps (map departure_sec (sort_key departure_sec times)))
            (kpi_route_stop_times trips sts)
        = map ((\<lambda>(r, s). pair_headways trips sts r s) \<circ> fst) (kpi_route_stop_times trips sts)"
    by (rule map_cong)
       (auto simp: pair_headways_def positive_gaps_headways_of map_sort_key
             dest: route_stop_times_entry)
  then show ?thesis unfolding kpi_headways_def map_map by (rule arg_cong)
qed

lemma trip_times_step:
  "(if \<not> truthy (get st ''trip_id'') then tt
    else
      (let trip_id = the (get st ''trip_id'');
           arr_sec = parse_time_to_seconds (get_d st ''arrival_time'' (Some []));
           dep_sec = parse_time_to_seconds (get_d st ''departure_time'' (Some []));
           tt1 = (case arr_sec of None \<Rightarrow> tt
                  | Some a \<Rightarrow> dd_modify trip_id (note_time a) (None, None) tt)
       in (case dep_sec of None \<Rightarrow> tt1
           | Some d \<Rightarrow> dd_modify trip_id (note_time d) (None, None) tt1)))
   = fold (\<lambda>(k, t). dd_modify k (note_time t) (None, None)) (duration_events st) tt"
  by (cases "parse_time_to_seconds (get_d st ''arrival_time'' (Some []))";
      cases "parse_time_to_seconds (get_d st ''departure_time'' (Some []))")
     (simp_all add: duration_events_def Let_def)

lemma trip_times_fold:
  "trip_times sts =
     fold (\<lambda>(k, t). dd_modify k (note_time t) (None, None)) (concat (map duration_events sts)) []"
  unfolding trip_times_def trip_times_step by (rule fold_concat_map)

lemma row_trip_seconds:
  "map snd (filter (\<lambda>e. fst e = tid) (duration_events st)) =
     (if tid \<noteq> [] \<and> get st ''trip_id'' = Some tid then
        (case parse_time_to_seconds (get_d st ''arrival_time'' (Some [])) of
           None \<Rightarrow> [] | Some a \<Rightarrow> [a]) @
        (case parse_time_to_seconds (get_d st ''departure_time'' (Some [])) of
           None \<Rightarrow> [] | Some d \<Rightarrow> [d])
      else [])"
  by (cases "parse_time_to_seconds (get_d st ''arrival_time'' (Some []))";
      cases "parse_time_to_seconds (get_d st ''departure_time'' (Some []))";
      cases "get st ''trip_id''")
     (auto simp: duration_events_def truthy_def)

lemma events_trip_seconds:
  "map snd (filter (\<lambda>e. fst e = tid) (concat (map duration_events sts)))
     = (if tid = [] then [] else trip_seconds sts tid)"
proof (induction sts)
  case Nil
  then show ?case by (simp add: trip_seconds_def)
next
  case (Cons st sts)
  have "trip_seconds (st # sts) tid =
      (if get st ''trip_id'' = Some tid then
        (case parse_time_to_seconds (get_d st ''arrival_time'' (Some [])) of
           None \<Rightarrow> [] | Some a \<Rightarrow> [a]) @
        (case parse_time_to_seconds (get_d st ''departure_time'' (Some [])) of
           None \<Rightarrow> [] | Some d \<Rightarrow> [d])
       else []) @ trip_seconds sts tid"
    by (simp add: trip_seconds_def)
  then show ?case using Cons.IH row_trip_seconds[of tid st] by simp
qed

lemma key_in_events: "k \<in> fst ` set evs \<longleftrightarrow> map snd (filter (\<lambda>e. fst e = k) evs) \<noteq> []"
  by (induction evs) auto

lemma trip_times_entry:
  assumes "(tid, sp) \<in> set (trip_times sts)"
  shows "tid \<noteq> [] \<and> trip_seconds sts tid \<noteq> [] \<and>
         sp = (Some (Min (set (trip_seconds sts tid))), Some (Max (set (trip_seconds sts tid))))"
proof -
  define evs where "evs = concat (map duration_events sts)"
  have tt: "trip_times sts = fold (\<lambda>(k, t). dd_modify k (note_time t) (None, None)) evs []"
    unfolding evs_def by (rule trip_times_fold)
  have sp: "sp = fold note_time (map snd (filter (\<lambda>e. fst e = tid) evs)) (None, None)"
    using assms unfolding tt by (rule fold_dd_entry)
  have "fst ` set (trip_times sts) = fst ` set evs"
    using fold_dd_keys[of note_time "(None, None)" evs "[]"] unfolding tt by simp
  moreover have "tid \<in> fst ` set (trip_times sts)"
    using assms by (rule rev_image_eqI) simp
  ultimately have "map snd (filter (\<lambda>e. fst e = tid) evs) \<noteq> []"
    by (simp add: key_in_events)
  moreover have ev: "map snd (filter (\<lambda>e. fst e = tid) evs) = (if tid = [] then [] else trip_seconds sts tid)"
    unfolding evs_def by (rule events_trip_seconds)
  ultimately have ne: "tid \<noteq> []" "trip_seconds sts tid \<noteq> []"
    by (simp_all split: if_splits)
  have "sp = fold note_time (trip_seconds sts tid) (None, None)"
    using sp ev ne by simp
  then show ?thesis using ne by (simp add: fold_note_time)
qed

lemma trip_times_keys:
  "set (map fst (trip_times sts)) = {tid. tid \<noteq> [] \<and> trip_seconds sts tid \<noteq> []}"
proof -
  define evs where "evs = concat (map duration_events sts)"
  have tt: "trip_times sts = fold (\<lambda>(k, t). dd_modify k (note_time t) (None, None)) evs []"
    unfolding evs_def by (rule trip_times_fold)
  have ev: "map snd (filter (\<lambda>e. fst e = tid) evs) = (if tid = [] then [] else trip_seconds sts tid)" for tid
    unfolding evs_def by (rule events_trip_seconds)
  have "set (map fst (trip_times sts)) = fst ` set evs"
    using fold_dd_keys[of note_time "(None, None)" evs "[]"] unfolding tt by simp
  also have "\<dots> = {tid. tid \<noteq> [] \<and> trip_seconds sts tid \<noteq> []}"
    by (rule set_eqI) (simp add: key_in_events ev)
  finally show ?thesis .
qed

lemma trip_times_distinct: "distinct (map fst (trip_times sts))"
  unfolding trip_times_fold by (rule fold_dd_distinct) simp

lemma trip_durations_spec:
  "trip_durations sts =
     concat (map (\<lambda>tid. case trip_duration sts tid of None \<Rightarrow> [] | Some d \<Rightarrow> if d > 0 then [d] else [])
                 (map fst (trip_times sts)))"
proof -
  have "map (\<lambda>(trip_id, times).
               (case times of
                  (Some t_first, Some t_last) \<Rightarrow> if t_last - t_first > 0 then [t_last - t_first] else []
                | _ \<Rightarrow> []))
            (trip_times sts)
        = map ((\<lambda>tid. case trip_duration sts tid of None \<Rightarrow> [] | Some d \<Rightarrow> if d > 0 then [d] else []) \<circ> fst)
              (trip_times sts)"
    by (rule map_cong) (auto simp: trip_duration_def dest!: trip_times_entry)
  then show ?thesis unfolding trip_durations_def map_map by (rule arg_cong)
qed

subsection \<open>Departure board and route detail bundle\<close>

lemma parse_get_d: "parse_time_to_seconds (get_d r k (Some [])) = parse_time_to_seconds (get r k)"
  by (simp add: get_d_def get_def parse_time_to_seconds_def truthy_def split: option.splits)

lemma board_example:
  "map dep_departure_time (get_stop_departures headway_trips board_routes board_stop_times ''S1'') =
     [Some ''08:05:00'', Some ''24:10:00'', Some ''7:50:00'']"
  by code_simp

lemma board_example_names:
  "map dep_route_name (get_stop_departures headway_trips board_routes board_stop_times ''S1'') =
     [Some ''1A'', Some ''1A'', Some ''1A'']"
  by code_simp

lemma board_example_order:
  "''08:05:00'' < ''24:10:00'' \<and> ''24:10:00'' < ''7:50:00''"
  by code_simp

lemma board_example_seconds:
  "map (\<lambda>d. parse_time_to_seconds (dep_departure_time d))
       (get_stop_departures headway_trips board_routes board_stop_times ''S1'') =
     [Some 29100, Some 87000, Some 28200]"
  by code_simp

lemma duration_minutes_zero:
  "dep_sec = Some 0 \<or> arr_sec = Some 0 \<Longrightarrow> duration_minutes dep_sec arr_sec = JNull"
  by (auto simp: duration_minutes_def truthy_int_def)

lemma trip_with_details_zero:
  assumes "trip_with_details sts stops trip = Some ds" and "d \<in> set ds"
    and "parse_time_to_seconds (td_departure_time d) = Some 0 \<or>
         parse_time_to_seconds (td_arrival_time d) = Some 0"
  shows "td_duration_minutes d = JNull"
  using assms
  by (auto simp: trip_with_details_def Let_def parse_get_d duration_minutes_zero
           split: if_splits option.splits)

lemma those_SomeD: "those xs = Some ys \<Longrightarrow> y \<in> set ys \<Longrightarrow> Some y \<in> set xs"
  by (induction xs arbitrary: ys) (auto split: option.splits)

lemma route_details_trip:
  assumes "get_route_details routes trips sts stops rid = Inr res" and "d \<in> set (rd_trips res)"
  shows "\<exists>trip ds. trip_with_details sts stops trip = Some ds \<and> d \<in> set ds"
proof -
  obtain details where th: "those (map (trip_with_details sts stops)
        (filter (\<lambda>trip. get trip ''route_id'' = Some rid) trips)) = Some details"
    and rd: "rd_trips res = concat details"
    using assms(1)
    by (auto simp: get_route_details_def Let_def split: if_splits option.splits)
  from assms(2) rd obtain ds where "ds \<in> set details" "d \<in> set ds" by auto
  with th have "Some ds \<in> set (map (trip_with_details sts stops)
        (filter (\<lambda>trip. get trip ''route_id'' = Some rid) trips))"
    by (meson those_SomeD)
  then show ?thesis using \<open>d \<in> set ds\<close> by (auto simp: image_iff) metis
qed

lemma first_stop_times_nonzero: "0 \<notin> set (first_stop_times firsts)"
  by (auto simp: first_stop_times_def List.map_filter_def truthy_int_def Let_def split: if_splits)

subsection \<open>Unknown routes and metrics without samples\<close>

lemma find_none_unknown: "\<not> known_route routes rid \<Longrightarrow> find (\<lambda>r. get r ''route_id'' = Some rid) routes = None"
  by (simp add: known_route_def find_None_iff list_ex_iff)

lemma route_details_unknown:
  "rid \<noteq> [] \<Longrightarrow> rid \<noteq> ''undefined'' \<Longrightarrow> \<not> known_route routes rid \<Longrightarrow>
     get_route_details routes trips sts stops rid = Inl Not_found"
  by (simp add: get_route_details_def find_none_unknown)

lemma route_stops_no_trips:
  "\<forall>t \<in> set trips. get t ''route_id'' \<noteq> Some rid \<Longrightarrow> get_route_stops fl trips sts stops rid = []"
  by (simp add: get_route_stops_def Let_def filter_empty_conv[THEN iffD2])

lemma route_stats_no_trips:
  "\<forall>t \<in> set trips. get t ''route_id'' \<noteq> Some rid \<Longrightarrow>
     get_route_stats trips rid = \<lparr>rs_total_trips = 0, rs_trips_by_service = []\<rparr>"
  by (simp add: get_route_stats_def Let_def filter_empty_conv[THEN iffD2])

lemma unknown_example:
  "\<not> known_route two_routes ''R9'' \<and> known_route two_routes ''R2'' \<and>
   get_route_stops decimal_float headway_trips headway_stop_times [] ''R9'' = [] \<and>
   get_route_stops decimal_float headway_trips headway_stop_times [] ''R2'' = [] \<and>
   get_route_stats headway_trips ''R9'' = \<lparr>rs_total_trips = 0, rs_trips_by_service = []\<rparr> \<and>
   get_route_stats headway_trips ''R2'' = \<lparr>rs_total_trips = 0, rs_trips_by_service = []\<rparr>"
  by code_simp

lemma kpi_zero_headway:
  "kpi_headways trips sts = [] \<Longrightarrow> kpi_avg_headway_minutes (get_kpis (Some routes) trips sts stops) = JNum 0"
  by (simp add: get_kpis_def Let_def average_or_zero_def)

lemma kpi_zero_duration:
  "trip_durations sts = [] \<Longrightarrow> kpi_avg_trip_duration_minutes (get_kpis (Some routes) trips sts stops) = JNum 0"
  by (simp add: get_kpis_def Let_def average_or_zero_def)

lemma kpi_missing_file:
  "kpi_avg_headway_minutes (get_kpis None trips sts stops) = JNum 0 \<and>
   kpi_avg_trip_duration_minutes (get_kpis None trips sts stops) = JNum 0"
  by (simp add: get_kpis_def)

lemma kpi_zero_counts:
  "kpi_total_routes (get_kpis (Some []) trips sts stops) = 0 \<and>
   kpi_total_trips (get_kpis (Some routes) [] sts stops) = 0 \<and>
   kpi_total_stops (get_kpis (Some routes) trips sts []) = 0"
  by (simp add: get_kpis_def Let_def)

lemma those_map_Some: "those (map (\<lambda>x. Some (g x)) xs) = Some (map g xs)"
  by (induction xs) auto

lemma route_details_no_stop_times:
  "get_route_details routes trips [] stops rid = Inr res \<Longrightarrow>
     rd_avg_headway_minutes res = JNull \<and> rd_trips res = [] \<and> rd_total_stops res = 0"
proof -
  have tw: "trip_with_details [] stops = (\<lambda>trip. Some [])"
    by (simp add: trip_with_details_def fun_eq_iff)
  have av: "avg_headway_minutes (first_stop_headways []) = JNull"
    by (simp add: avg_headway_minutes_def first_stop_headways_def first_stop_times_def)
  assume "get_route_details routes trips [] stops rid = Inr res"
  then show ?thesis
    by (auto simp: get_route_details_def Let_def tw those_map_Some av
             split: if_splits option.splits)
qed

lemma duration_minutes_None:
  "duration_minutes None arr_sec = JNull \<and> duration_minutes dep_sec None = JNull"
  by (simp add: duration_minutes_def truthy_int_def)

lemma kpi_empty_example:
  "kpi_headways [] [] = [] \<and> trip_durations [] = [] \<and>
   kpi_avg_headway_minutes (get_kpis (Some []) [] [] []) = JNum 0 \<and>
   kpi_avg_trip_duration_minutes (get_kpis (Some []) [] [] []) = JNum 0"
  by code_simp

subsection \<open>Editing a route row and writing the table\<close>

lemma keys_dict_set: "k \<in> fst ` set r \<Longrightarrow> map fst (dict_set k v r) = map fst r"
  by (simp add: dict_set_def keys_dd_modify)

lemma map_of_dict_set: "map_of (dict_set k v r) k' = (if k' = k then Some v else map_of r k')"
  by (simp add: dict_set_def map_of_dd_modify)

lemma get_dict_set: "get (dict_set k v r) k' = (if k' = k then v else get r k')"
  by (simp add: get_def map_of_dict_set)

lemma fold_edit_keys:
  "\<forall>k \<in> set ks. map_of data k \<noteq> None \<longrightarrow> k \<in> fst ` set r \<Longrightarrow>
   map fst (fold (\<lambda>k r. case map_of data k of None \<Rightarrow> r | Some v \<Rightarrow> dict_set k (Some v) r) ks r) = map fst r"
proof (induction ks arbitrary: r)
  case Nil
  then show ?case by simp
next
  case (Cons k ks)
  show ?case
  proof (cases "map_of data k")
    case None
    then show ?thesis using Cons by simp
  next
    case (Some v)
    then have "k \<in> fst ` set r" using Cons.prems by simp
    then have kk: "map fst (dict_set k (Some v) r) = map fst r" by (rule keys_dict_set)
    then have "fst ` set (dict_set k (Some v) r) = fst ` set r"
      by (metis list.set_map)
    then show ?thesis using Cons.IH[of "dict_set k (Some v) r"] Cons.prems Some kk by simp
  qed
qed

lemma fold_edit_get:
  "distinct ks \<Longrightarrow>
   get (fold (\<lambda>k r. case map_of data k of None \<Rightarrow> r | Some v \<Rightarrow> dict_set k (Some v) r) ks r) k' =
     (case map_of data k' of None \<Rightarrow> get r k' | Some v \<Rightarrow> if k' \<in> set ks then Some v else get r k')"
proof (induction ks arbitrary: r)
  case Nil
  then show ?case by (simp split: option.splits)
next
  case (Cons k ks)
  then show ?case by (auto simp: get_dict_set split: option.splits)
qed

lemma apply_edit_keys:
  "\<forall>k \<in> set edit_fields. map_of data k \<noteq> None \<longrightarrow> k \<in> set (map fst r) \<Longrightarrow>
     map fst (apply_edit data r) = map fst r"
  unfolding apply_edit_def by (rule fold_edit_keys) simp

lemma apply_edit_get:
  "get (apply_edit data r) k =
     (case map_of data k of None \<Rightarrow> get r k | Some v \<Rightarrow> if k \<in> set edit_fields then Some v else get r k)"
  unfolding apply_edit_def by (rule fold_edit_get) (simp add: edit_fields_def)

lemma dict_set_values:
  "complete_row r \<Longrightarrow> v \<noteq> None \<Longrightarrow>
     complete_row (dict_set k v r)"
  unfolding dict_set_def complete_row_def by (induction r) auto

lemma fold_edit_values:
  "complete_row r \<Longrightarrow>
   complete_row
     (fold (\<lambda>k r. case map_of data k of None \<Rightarrow> r | Some v \<Rightarrow> dict_set k (Some v) r) ks r)"
  by (induction ks arbitrary: r) (auto simp: dict_set_values split: option.splits)

lemma apply_edit_values:
  "complete_row r \<Longrightarrow> complete_row (apply_edit data r)"
  unfolding apply_edit_def by (rule fold_edit_values)

lemma written_row_id:
  assumes "distinct (map fst r)" and "complete_row r"
  shows "written_row (map fst r) r = r"
proof -
  have "(fst kv, Some (case get r (fst kv) of None \<Rightarrow> [] | Some s \<Rightarrow> s)) = kv" if "kv \<in> set r" for kv
  proof -
    obtain k v where kv: "kv = (k, v)" by (cases kv)
    from that assms(1) have "map_of r k = Some v" by (simp add: kv)
    moreover from that assms(2) obtain s where "v = Some s"
      by (auto simp: kv list_all_iff complete_row_def)
    ultimately show ?thesis by (simp add: kv get_def)
  qed
  then show ?thesis unfolding written_row_def map_map by (simp add: map_idI)
qed

lemma write_csv_rectangular:
  assumes "rectangular cols rows" and "rows \<noteq> []"
  shows "write_csv rows = (rows, True)"
proof -
  have keys: "map fst r = cols" if "r \<in> set rows" for r
    using assms(1) that by (simp add: rectangular_def list_all_iff)
  have vals: "complete_row r" if "r \<in> set rows" for r
    using assms(1) that by (simp add: rectangular_def list_all_iff)
  have d: "distinct cols" using assms(1) by (simp add: rectangular_def)
  have hd: "map fst (hd rows) = cols" using assms(2) keys by simp
  have tw: "takeWhile (\<lambda>r. list_all (\<lambda>k. k \<in> set cols) (map fst r)) rows = rows"
    by (rule takeWhile_eq_all_conv[THEN iffD2]) (simp add: keys list_all_iff)
  have "map (written_row cols) rows = rows"
    by (rule map_idI) (metis keys vals d written_row_id)
  then show ?thesis by (simp add: write_csv_def Let_def hd tw)
qed

lemma update_first_match:
  "\<forall>r \<in> set pre. get r ''route_id'' \<noteq> Some rid \<Longrightarrow> get route ''route_id'' = Some rid \<Longrightarrow>
     update_first rid data (pre @ route # post) = Some (pre @ apply_edit data route # post)"
  by (induction pre) auto

lemma update_first_none:
  "\<forall>r \<in> set routes. get r ''route_id'' \<noteq> Some rid \<Longrightarrow> update_first rid data routes = None"
  by (induction routes) auto

lemma update_route_found:
  assumes rect: "rectangular cols (pre @ route # post)"
    and key: "map_of data ''route_id'' \<noteq> None"
    and sup: "\<forall>k \<in> set edit_fields. map_of data k \<noteq> None \<longrightarrow> k \<in> set cols"
    and pre: "\<forall>r \<in> set pre. get r ''route_id'' \<noteq> Some rid"
    and m: "get route ''route_id'' = Some rid"
  shows "update_route (pre @ route # post) rid data = (None, pre @ apply_edit data route # post) \<and>
         map fst (apply_edit data route) = cols"
proof -
  have rk: "map fst route = cols" and rv: "complete_row route"
    using rect by (simp_all add: rectangular_def)
  have ek: "map fst (apply_edit data route) = cols"
    using apply_edit_keys[of data route] sup rk by simp
  have "rectangular cols (pre @ apply_edit data route # post)"
    using rect ek apply_edit_values[OF rv, of data] by (simp add: rectangular_def)
  then have "write_csv (pre @ apply_edit data route # post) = (pre @ apply_edit data route # post, True)"
    by (rule write_csv_rectangular) simp
  moreover have "data \<noteq> []" using key by auto
  ultimately show ?thesis
    using key ek update_first_match[OF pre m, of data post] by (simp add: update_route_def)
qed

lemma update_route_not_found:
  "map_of data ''route_id'' \<noteq> None \<Longrightarrow> \<forall>r \<in> set routes. get r ''route_id'' \<noteq> Some rid \<Longrightarrow>
     update_route routes rid data = (Some Not_found, routes)"
  by (auto simp: update_route_def update_first_none)

subsection \<open>Path builders\<close>

lemma batch_point_valid:
  "batch_point to_float sd st = Some pts \<Longrightarrow> p \<in> set pts \<Longrightarrow> valid_position p"
  by (auto simp: batch_point_def Let_def valid_position_def split: if_splits option.splits)

lemma batch_point_resolved:
  "strip_cell (get st ''stop_id'') \<noteq> [] \<Longrightarrow> sd (strip_cell (get st ''stop_id'')) = Some stop \<Longrightarrow>
   stop \<noteq> [] \<Longrightarrow> strip_or_raise stop ''stop_lat'' = Some lat_str \<Longrightarrow>
   strip_or_raise stop ''stop_lon'' = Some lon_str \<Longrightarrow>
   to_float lat_str = Some lat \<Longrightarrow> to_float lon_str = Some lon \<Longrightarrow>
   lat_str \<noteq> [] \<Longrightarrow> lon_str \<noteq> [] \<Longrightarrow>
   batch_point to_float sd st = Some (if valid_position (lat, lon) then [(lat, lon)] else [])"
  by (auto simp: batch_point_def Let_def valid_position_def)

lemma batch_coordinates_valid:
  "batch_coordinates to_float sd sts = Some cs \<Longrightarrow> p \<in> set cs \<Longrightarrow> valid_position p"
proof (induction sts arbitrary: cs)
  case Nil
  then show ?case by simp
next
  case (Cons st sts)
  then show ?case
    by (auto split: option.splits dest: batch_point_valid)
qed

lemma batch_route_valid:
  assumes "bp \<in> set (batch_route to_float set_order trips by_trip sd route)"
  shows "length (bp_coordinates bp) \<ge> 2 \<and> (\<forall>p \<in> set (bp_coordinates bp). valid_position p)"
  using assms
  by (auto simp: batch_route_def Let_def split: option.splits if_splits list.splits
           dest: batch_coordinates_valid batch_coordinates_valid[OF sym])

lemma all_route_paths_valid:
  assumes "bp \<in> set (get_all_route_paths to_float set_order routes_file trips sts stops)"
  shows "length (bp_coordinates bp) \<ge> 2 \<and> (\<forall>p \<in> set (bp_coordinates bp). valid_position p)"
  using assms
  by (auto simp: get_all_route_paths_def split: option.splits dest: batch_route_valid)

lemma bounds_single:
  "get_route_path decimal_float bounds_trips bounds_stop_times path_stops ''R1'' =
     Inr \<lparr>rp_route_id = ''R1'', rp_coordinates = [(45, 10), (95, 10)],
          rp_stops = [\<lparr>si_stop_id = Some ''SA'', si_stop_name = Some ''SA'', si_stop_sequence = 1\<rparr>,
                      \<lparr>si_stop_id = Some ''SC'', si_stop_name = Some ''SC'', si_stop_sequence = 3\<rparr>],
          rp_total_stops = 2\<rparr>"
  by code_simp

lemma bounds_batch:
  "map bp_coordinates
     (get_all_route_paths decimal_float id (Some two_routes) bounds_trips bounds_stop_times path_stops) =
   [[(45, 10), (0, 10)]]"
  by code_simp

lemma bounds_positions: "\<not> valid_position (95, 10) \<and> valid_position (0, 10) \<and> valid_position (45, 10)"
  by (simp add: valid_position_def)

lemma short_single:
  "get_route_path decimal_float short_trips short_stop_times path_stops ''R1'' =
     Inr \<lparr>rp_route_id = ''R1'', rp_coordinates = [(45, 10)],
          rp_stops = [\<lparr>si_stop_id = Some ''SA'', si_stop_name = Some ''SA'', si_stop_sequence = 1\<rparr>],
          rp_total_stops = 1\<rparr>"
  by code_simp

lemma short_batch:
  "map bp_route_id
     (get_all_route_paths decimal_float id (Some two_routes) short_trips short_stop_times path_stops) = [''R2''] \<and>
   map bp_coordinates
     (get_all_route_paths decimal_float id (Some two_routes) short_trips short_stop_times path_stops) =
   [[(45, 10), (46, 11), (47, 12)]]"
  by code_simp

subsection \<open>Headway samples and durations of the route detail bundle\<close>

lemma positive_gaps_positive: "h \<in> set (positive_gaps xs) \<Longrightarrow> 0 < h"
  by (induction xs rule: positive_gaps.induct) (auto split: if_splits)

lemma first_stop_headways_positive: "h \<in> set (first_stop_headways firsts) \<Longrightarrow> 0 < h"
  by (auto simp: first_stop_headways_def dest: positive_gaps_positive)

lemma sum_list_positive: "hs \<noteq> [] \<Longrightarrow> \<forall>h \<in> set hs. (0::rat) < h \<Longrightarrow> 0 < sum_list hs"
  by (induction hs) (auto intro: add_pos_nonneg sum_list_nonneg less_imp_le)

lemma avg_headway_minutes_samples:
  assumes "\<forall>h \<in> set hs. 0 < h"
  shows "avg_headway_minutes hs = (if hs = [] then JNull else JNum (sum_list hs / of_nat (length hs)))"
proof (cases "hs = []")
  case True
  then show ?thesis by (simp add: avg_headway_minutes_def)
next
  case False
  then have "0 < sum_list hs" using assms by (rule sum_list_positive)
  moreover have "0 < (of_nat (length hs) :: rat)" using False by simp
  ultimately have "sum_list hs / of_nat (length hs) \<noteq> 0" by simp
  then show ?thesis using False by (simp add: avg_headway_minutes_def)
qed

lemma first_stops_by_trip_Nil: "first_stops_by_trip [] = Some []"
  by (simp add: first_stops_by_trip_def)

lemma route_details_headway:
  assumes "get_route_details routes trips sts stops rid = Inr res"
  shows "\<exists>hs. route_headway_samples trips sts rid = Some hs \<and>
           rd_avg_headway_minutes res =
             (if hs = [] then JNull else JNum (sum_list hs / of_nat (length hs)))"
proof -
  define rst where "rst = filter (\<lambda>st. get st ''trip_id'' \<in>
      set (map (\<lambda>t. get t ''trip_id'') (filter (\<lambda>trip. get trip ''route_id'' = Some rid) trips))) sts"
  have "(if rst = [] then Some [] else first_stops_by_trip rst) = first_stops_by_trip rst"
    by (simp add: first_stops_by_trip_Nil)
  with assms obtain firsts where f: "first_stops_by_trip rst = Some firsts"
    and r: "rd_avg_headway_minutes res = avg_headway_minutes (first_stop_headways (map snd firsts))"
    unfolding rst_def
    by (auto simp: get_route_details_def Let_def split: if_splits option.splits)
  have "route_headway_samples trips sts rid = Some (first_stop_headways (map snd firsts))"
    using f by (simp add: route_headway_samples_def Let_def rst_def)
  moreover have "avg_headway_minutes (first_stop_headways (map snd firsts)) =
      (if first_stop_headways (map snd firsts) = [] then JNull
       else JNum (sum_list (first_stop_headways (map snd firsts)) /
                  of_nat (length (first_stop_headways (map snd firsts)))))"
    by (rule avg_headway_minutes_samples) (auto dest: first_stop_headways_positive)
  ultimately show ?thesis using r by simp
qed

lemma duration_minutes_unparsed:
  "dep_sec = None \<or> arr_sec = None \<Longrightarrow> duration_minutes dep_sec arr_sec = JNull"
  by (auto simp: duration_minutes_def truthy_int_def)

lemma trip_with_details_unparsed:
  assumes "trip_with_details sts stops trip = Some ds" and "d \<in> set ds"
    and "parse_time_to_seconds (td_departure_time d) = None \<or>
         parse_time_to_seconds (td_arrival_time d) = None"
  shows "td_duration_minutes d = JNull"
  using assms
  by (auto simp: trip_with_details_def Let_def parse_get_d duration_minutes_unparsed
           split: if_splits option.splits)

lemma route_details_unparsed:
  assumes "get_route_details routes trips sts stops rid = Inr res" and "d \<in> set (rd_trips res)"
    and "parse_time_to_seconds (td_departure_time d) = None \<or>
         parse_time_to_seconds (td_arrival_time d) = None"
  shows "td_duration_minutes d = JNull"
proof -
  from route_details_trip[OF assms(1,2)] obtain trip ds
    where "trip_with_details sts stops trip = Some ds" "d \<in> set ds" by blast
  then show ?thesis using assms(3) by (rule trip_with_details_unparsed)
qed

subsection \<open>Time codec\<close>





subsection \<open>System-wide headway\<close>

lemma headway_example_value: "kpi_headways headway_trips headway_stop_times = [900, 900]"
  by code_simp

lemma headway_example_minutes:
  "kpi_avg_headway_minutes (get_kpis (Some []) headway_trips headway_stop_times []) = JNum 15"
  by code_simp

text \<open>
  Claim C1, as amended. The groups of the first KPI loop are the (route, stop) pairs
  that have a stop-time with a valid departure, each once; the headways of the KPI are,
  pair after pair, the positive differences of consecutive departures of the pair
  sorted ascending. For departures at 08:00:00, 08:15:00, 08:15:00 and 08:30:00 of one
  pair the headways are 900 s and 900 s (the zero gap of the duplicate is dropped),
  and the average is 900 s, that is 15 minutes.
\<close>

theorem kpi_headways_per_pair:
  "distinct (map fst (kpi_route_stop_times trips sts)) \<and>
   set (map fst (kpi_route_stop_times trips sts)) = {(r, s). pair_departures trips sts r s \<noteq> []} \<and>
   kpi_headways trips sts =
     concat (map (\<lambda>(r, s). pair_headways trips sts r s) (map fst (kpi_route_stop_times trips sts))) \<and>
   pair_departures headway_trips headway_stop_times (Some ''R1'') (Some ''S1'') =
     [29700, 28800, 30600, 29700] \<and>
   kpi_headways headway_trips headway_stop_times = [900, 900] \<and>
   average_or_zero (kpi_headways headway_trips headway_stop_times) = 900 \<and>
   kpi_avg_headway_minutes (get_kpis (Some []) headway_trips headway_stop_times []) = JNum 15"
proof -
  have "pair_departures headway_trips headway_stop_times (Some ''R1'') (Some ''S1'') =
     [29700, 28800, 30600, 29700]" by code_simp
  moreover have "average_or_zero [900, 900] = 900" by (simp add: average_or_zero_def)
  ultimately show ?thesis
    using route_stop_times_distinct[of trips sts] route_stop_times_keys[of trips sts]
      kpi_headways_pairs[of trips sts] headway_example_value headway_example_minutes
    by simp
qed

text \<open>
  The claim as stated gives the headways 900 s and 1800 s and the average 22.5 minutes
  for this example; the code gives 900 s twice and 15 minutes.
\<close>

theorem kpi_headways_example_differs:
  "kpi_headways headway_trips headway_stop_times \<noteq> [900, 1800] \<and>
   kpi_avg_headway_minutes (get_kpis (Some []) headway_trips headway_stop_times []) \<noteq> JNum (45 / 2)"
  using headway_example_value headway_example_minutes by simp

subsection \<open>System-wide trip duration\<close>

lemma duration_example_value: "trip_durations duration_stop_times = [660]"
  by code_simp

text \<open>
  Claim C6. The trips of the second KPI loop are the non-empty trip ids that have a
  time that parses, each once; the duration of a trip is the maximum minus the minimum
  of all its arrival and departure seconds; the KPI keeps the positive durations and
  averages them, in minutes. The trip with stop-times (no arrival, departure 28800)
  and (arrival 29400, departure 29460) lasts 660 s, that is 11 minutes.
\<close>

theorem kpi_trip_durations_max_minus_min:
  "distinct (map fst (trip_times sts)) \<and>
   set (map fst (trip_times sts)) = {tid. tid \<noteq> [] \<and> trip_seconds sts tid \<noteq> []} \<and>
   trip_durations sts =
     concat (map (\<lambda>tid. case trip_duration sts tid of
                          None \<Rightarrow> [] | Some d \<Rightarrow> if d > 0 then [d] else [])
                 (map fst (trip_times sts))) \<and>
   kpi_avg_trip_duration_minutes (get_kpis (Some routes) trips sts stops) =
     JNum ((if trip_durations sts = [] then 0
            else of_int (sum_list (trip_durations sts)) / of_nat (length (trip_durations sts))) / 60) \<and>
   trip_seconds duration_stop_times ''T1'' = [28800, 29400, 29460] \<and>
   trip_duration duration_stop_times ''T1'' = Some 660 \<and>
   trip_durations duration_stop_times = [660] \<and>
   kpi_avg_trip_duration_minutes (get_kpis (Some []) [] duration_stop_times []) = JNum 11"
proof -
  have "kpi_avg_trip_duration_minutes (get_kpis (Some routes) trips sts stops) =
     JNum ((if trip_durations sts = [] then 0
            else of_int (sum_list (trip_durations sts)) / of_nat (length (trip_durations sts))) / 60)"
    by (simp add: get_kpis_def Let_def average_or_zero_def)
  moreover have "trip_seconds duration_stop_times ''T1'' = [28800, 29400, 29460]" by code_simp
  moreover have "trip_duration duration_stop_times ''T1'' = Some 660" by code_simp
  moreover have "kpi_avg_trip_duration_minutes (get_kpis (Some []) [] duration_stop_times []) = JNum 11"
    by code_simp
  ultimately show ?thesis
    using trip_times_distinct[of sts] trip_times_keys[of sts] trip_durations_spec[of sts]
      duration_example_value
    by simp
qed

subsection \<open>Departure board\<close>

lemma empty_board_example:
  "map dep_departure_time
     (get_stop_departures headway_trips board_routes empty_board_stop_times ''S1'') =
   [Some [], None, Some ''08:05:00'']"
  by code_simp

text \<open>
  Claim C2, as amended. The departure board of a stop is made from every stop-time at
  the stop whose row has the column \<^verbatim>\<open>departure_time\<close>, also when its value is empty or
  \<^verbatim>\<open>None\<close>; it is the prefix of at most 20 entries of these entries sorted ascending by
  the raw departure text (the empty text for an empty or missing value) under the
  lexicographic order of strings, entries with equal texts keeping their file order.
  For the texts \<^verbatim>\<open>"7:50:00"\<close>, \<^verbatim>\<open>"24:10:00"\<close> and \<^verbatim>\<open>"08:05:00"\<close> at one stop the board
  lists \<^verbatim>\<open>"08:05:00"\<close>, \<^verbatim>\<open>"24:10:00"\<close>, \<^verbatim>\<open>"7:50:00"\<close>: the order of the texts, not of
  the times 29100 s, 87000 s, 28200 s. Entries without a departure time come first.
\<close>

theorem stop_departures_lexicographic_first_20:
  fixes trips routes sts sid
  defines "entries \<equiv> map (departure_of trips routes) (filter (at_stop sid) sts)"
  defines "board \<equiv> get_stop_departures trips routes sts sid"
  shows "length board = min 20 (length entries) \<and>
   sorted (map departure_key board) \<and>
   (\<exists>rest. mset (board @ rest) = mset entries \<and>
      sorted (map departure_key (board @ rest)) \<and>
      (\<forall>k. filter (\<lambda>d. departure_key d = k) (board @ rest) =
           filter (\<lambda>d. departure_key d = k) entries)) \<and>
   map dep_departure_time (get_stop_departures headway_trips board_routes board_stop_times ''S1'') =
     [Some ''08:05:00'', Some ''24:10:00'', Some ''7:50:00''] \<and>
   ''08:05:00'' < ''24:10:00'' \<and> ''24:10:00'' < ''7:50:00'' \<and>
   map (\<lambda>d. parse_time_to_seconds (dep_departure_time d))
       (get_stop_departures headway_trips board_routes board_stop_times ''S1'') =
     [Some 29100, Some 87000, Some 28200] \<and>
   map dep_departure_time
     (get_stop_departures headway_trips board_routes empty_board_stop_times ''S1'') =
   [Some [], None, Some ''08:05:00'']"
proof -
  let ?all = "sort_key departure_key entries"
  have b: "board = take 20 ?all"
    by (simp add: board_def entries_def get_stop_departures_def)
  have "sorted (map departure_key ?all)" by (rule sorted_sort_key)
  then have "sorted (map departure_key board)"
    unfolding b take_map[symmetric] by (rule sorted_wrt_take)
  moreover have "length board = min 20 (length entries)" by (simp add: b min.commute)
  moreover have "mset (board @ drop 20 ?all) = mset entries \<and>
      sorted (map departure_key (board @ drop 20 ?all)) \<and>
      (\<forall>k. filter (\<lambda>d. departure_key d = k) (board @ drop 20 ?all) =
           filter (\<lambda>d. departure_key d = k) entries)"
    unfolding b append_take_drop_id by (simp add: sort_key_stable)
  ultimately show ?thesis
    using board_example board_example_order board_example_seconds empty_board_example by blast
qed

text \<open>
  The claim as stated fails for stop-times without a departure time: the stop-times
  with the empty text and with \<^verbatim>\<open>None\<close> as departure time are on the board, before the
  departure at 08:05:00.
\<close>

theorem stop_departures_lists_empty_departure:
  "map dep_departure_time
     (get_stop_departures headway_trips board_routes empty_board_stop_times ''S1'') =
   [Some [], None, Some ''08:05:00''] \<and>
   parse_time_to_seconds (Some []) = None \<and> parse_time_to_seconds None = None"
proof -
  have "parse_time_to_seconds (Some []) = None \<and> parse_time_to_seconds None = None"
    by (simp add: parse_time_to_seconds_def truthy_def)
  then show ?thesis using empty_board_example by simp
qed

subsection \<open>Times that parse to zero in the route detail bundle\<close>

lemma midnight_example:
  "(case get_route_details two_routes midnight_trips midnight_stop_times [] ''R1'' of
      Inl e \<Rightarrow> False
    | Inr res \<Rightarrow>
        map td_departure_time (rd_trips res) = [Some ''00:00:00'', Some ''00:10:00'', Some ''00:30:00''] \<and>
        map td_duration_minutes (rd_trips res) = [JNull, JNum 20, JNum 20] \<and>
        rd_avg_headway_minutes res = JNum 20)"
  by code_simp

text \<open>
  Claim C10. In the answer of the route detail bundle, a trip whose first departure
  or last arrival parses to 0 seconds has the duration \<^verbatim>\<open>null\<close>, and no departure
  that parses to 0 is among the first-stop times of the route-level headway. In the
  example the trip that leaves at 00:00:00 and arrives at 00:20:00 has no duration,
  and the first departures 00:00:00, 00:10:00, 00:30:00 give the single headway of 20
  minutes between the last two, although \<^verbatim>\<open>"00:00:00"\<close> parses (to 0).
\<close>

theorem route_details_zero_seconds_absent:
  "(get_route_details routes trips sts stops rid = Inr res \<and> d \<in> set (rd_trips res) \<and>
      (parse_time_to_seconds (td_departure_time d) = Some 0 \<or>
       parse_time_to_seconds (td_arrival_time d) = Some 0)
      \<longrightarrow> td_duration_minutes d = JNull) \<and>
   0 \<notin> set (first_stop_times firsts) \<and>
   parse_time_to_seconds (Some ''00:00:00'') = Some 0 \<and>
   (case get_route_details two_routes midnight_trips midnight_stop_times [] ''R1'' of
      Inl e \<Rightarrow> False
    | Inr res \<Rightarrow>
        map td_departure_time (rd_trips res) = [Some ''00:00:00'', Some ''00:10:00'', Some ''00:30:00''] \<and>
        map td_duration_minutes (rd_trips res) = [JNull, JNum 20, JNum 20] \<and>
        rd_avg_headway_minutes res = JNum 20)"
proof -
  have "td_duration_minutes d = JNull"
    if "get_route_details routes trips sts stops rid = Inr res" "d \<in> set (rd_trips res)"
       "parse_time_to_seconds (td_departure_time d) = Some 0 \<or>
        parse_time_to_seconds (td_arrival_time d) = Some 0"
  proof -
    from route_details_trip[OF that(1,2)] obtain trip ds
      where "trip_with_details sts stops trip = Some ds" "d \<in> set ds" by blast
    then show ?thesis using that(3) by (rule trip_with_details_zero)
  qed
  moreover have "parse_time_to_seconds (Some ''00:00:00'') = Some 0" by code_simp
  ultimately show ?thesis using first_stop_times_nonzero[of firsts] midnight_example by blast
qed

theorem route_details_zero_seconds_absent_witness:
  "\<exists>res d. get_route_details two_routes midnight_trips midnight_stop_times [] ''R1'' = Inr res \<and>
     d \<in> set (rd_trips res) \<and> parse_time_to_seconds (td_departure_time d) = Some 0 \<and>
     td_duration_minutes d = JNull"
proof -
  obtain res where r: "get_route_details two_routes midnight_trips midnight_stop_times [] ''R1'' = Inr res"
    and t: "map td_departure_time (rd_trips res) = [Some ''00:00:00'', Some ''00:10:00'', Some ''00:30:00'']"
    using midnight_example by (auto split: sum.splits)
  from t obtain d ds where ds: "rd_trips res = d # ds" and d: "td_departure_time d = Some ''00:00:00''"
    by (cases "rd_trips res") auto
  have p: "parse_time_to_seconds (td_departure_time d) = Some 0" unfolding d by code_simp
  have "d \<in> set (rd_trips res)" by (simp add: ds)
  with r p have "td_duration_minutes d = JNull"
    using route_details_zero_seconds_absent[of two_routes midnight_trips midnight_stop_times "[]" "''R1''" res d]
    by blast
  with r p \<open>d \<in> set (rd_trips res)\<close> show ?thesis by blast
qed

subsection \<open>Unknown route ids\<close>

text \<open>
  Claim C7, as amended. For a route id that is not in the routes table, the route
  detail query answers with an explicit not-found error (the id being neither empty
  nor \<^verbatim>\<open>'undefined'\<close>). The route stops and route stats queries do not read the routes
  table: for an id to which no trip refers they answer with the empty list and with
  the zero count, whether the route exists or not.
\<close>

theorem unknown_route_only_details_not_found:
  "(rid \<noteq> [] \<and> rid \<noteq> ''undefined'' \<and> \<not> known_route routes rid
      \<longrightarrow> get_route_details routes trips sts stops rid = Inl Not_found) \<and>
   ((\<forall>t \<in> set trips. get t ''route_id'' \<noteq> Some rid)
      \<longrightarrow> get_route_stops to_float trips sts stops rid = [] \<and>
          get_route_stats trips rid = \<lparr>rs_total_trips = 0, rs_trips_by_service = []\<rparr>)"
  using route_details_unknown[of rid routes trips sts stops]
    route_stops_no_trips[of trips rid to_float sts stops] route_stats_no_trips[of trips rid]
  by blast

theorem unknown_route_only_details_not_found_witness:
  "''R9'' \<noteq> [] \<and> ''R9'' \<noteq> ''undefined'' \<and> \<not> known_route two_routes ''R9'' \<and>
   map (\<lambda>t. get t ''route_id'') headway_trips = [Some ''R1'', Some ''R1'', Some ''R1'', Some ''R1''] \<and>
   get_route_details two_routes headway_trips headway_stop_times [] ''R9'' = Inl Not_found \<and>
   get_route_stops decimal_float headway_trips headway_stop_times [] ''R9'' = [] \<and>
   get_route_stats headway_trips ''R9'' = \<lparr>rs_total_trips = 0, rs_trips_by_service = []\<rparr>"
proof -
  have h1: "''R9'' \<noteq> [] \<and> ''R9'' \<noteq> ''undefined'' \<and> \<not> known_route two_routes ''R9''"
    by code_simp
  have h2: "\<forall>t \<in> set headway_trips. get t ''route_id'' \<noteq> Some ''R9''"
    by code_simp
  have h3: "map (\<lambda>t. get t ''route_id'') headway_trips = [Some ''R1'', Some ''R1'', Some ''R1'', Some ''R1'']"
    by code_simp
  show ?thesis
    using h1 h2 h3
      unknown_route_only_details_not_found[of "''R9''" two_routes headway_trips
        headway_stop_times "[]" decimal_float]
    by blast
qed

text \<open>
  The claim as stated fails for the route stops and the route stats: the unknown id
  \<open>R9\<close> gets the same empty answers as the known route \<open>R2\<close>, which has no trips.
\<close>

theorem unknown_route_stops_stats_empty_success:
  "\<not> known_route two_routes ''R9'' \<and> known_route two_routes ''R2'' \<and>
   get_route_stops decimal_float headway_trips headway_stop_times [] ''R9'' = [] \<and>
   get_route_stops decimal_float headway_trips headway_stop_times [] ''R2'' = [] \<and>
   get_route_stats headway_trips ''R9'' = \<lparr>rs_total_trips = 0, rs_trips_by_service = []\<rparr> \<and>
   get_route_stats headway_trips ''R2'' = \<lparr>rs_total_trips = 0, rs_trips_by_service = []\<rparr>"
  by (rule unknown_example)

subsection \<open>Metrics without samples\<close>

text \<open>
  Claim C8, as amended. The functions are total, so nothing raises. Without samples
  the counts are 0. The system-wide average headway and average trip duration are the
  number 0 when there is no positive headway or no positive duration (and when the
  routes file is missing). In the route detail bundle the average headway is \<^verbatim>\<open>null\<close>
  exactly when the route has no first-stop headway sample, and the average of the
  samples otherwise; the duration of a trip is \<^verbatim>\<open>null\<close> when the departure of its first
  stop or the arrival of its last stop does not parse.
\<close>

theorem zero_samples_kpi_zero_details_null:
  "(kpi_headways trips sts = []
      \<longrightarrow> kpi_avg_headway_minutes (get_kpis (Some routes) trips sts stops) = JNum 0) \<and>
   (trip_durations sts = []
      \<longrightarrow> kpi_avg_trip_duration_minutes (get_kpis (Some routes) trips sts stops) = JNum 0) \<and>
   kpi_avg_headway_minutes (get_kpis None trips sts stops) = JNum 0 \<and>
   kpi_avg_trip_duration_minutes (get_kpis None trips sts stops) = JNum 0 \<and>
   kpi_total_routes (get_kpis (Some []) trips sts stops) = 0 \<and>
   kpi_total_trips (get_kpis (Some routes) [] sts stops) = 0 \<and>
   kpi_total_stops (get_kpis (Some routes) trips sts []) = 0 \<and>
   avg_headway_minutes [] = JNull \<and>
   duration_minutes None arr_sec = JNull \<and> duration_minutes dep_sec None = JNull \<and>
   (get_route_details routes trips [] stops rid = Inr res
      \<longrightarrow> rd_avg_headway_minutes res = JNull \<and> rd_trips res = [] \<and> rd_total_stops res = 0) \<and>
   (get_route_details routes trips sts stops rid = Inr info
      \<longrightarrow> (\<exists>hs. route_headway_samples trips sts rid = Some hs \<and>
             rd_avg_headway_minutes info =
               (if hs = [] then JNull else JNum (sum_list hs / of_nat (length hs))))) \<and>
   (get_route_details routes trips sts stops rid = Inr info \<and> d \<in> set (rd_trips info) \<and>
    (parse_time_to_seconds (td_departure_time d) = None \<or>
     parse_time_to_seconds (td_arrival_time d) = None)
      \<longrightarrow> td_duration_minutes d = JNull)"
proof -
  have "avg_headway_minutes [] = JNull" by (simp add: avg_headway_minutes_def)
  then show ?thesis
    using kpi_zero_headway[of trips sts routes stops] kpi_zero_duration[of sts routes trips stops]
      kpi_missing_file[of trips sts stops] kpi_zero_counts[of trips sts stops routes]
      duration_minutes_None[of arr_sec dep_sec]
      route_details_no_stop_times[of routes trips stops rid res]
      route_details_headway[of routes trips sts stops rid info]
      route_details_unparsed[of routes trips sts stops rid info d]
    by blast
qed

lemma details_empty_example:
  "get_route_details two_routes headway_trips [] [] ''R1'' =
     Inr \<lparr>rd_route = [(''route_id'', Some ''R1''), (''route_short_name'', Some ''1A'')],
          rd_total_trips = 4, rd_trips = [], rd_avg_headway_minutes = JNull, rd_total_stops = 0\<rparr>"
  by code_simp

lemma lonely_example:
  "(case get_route_details two_routes bounds_trips lonely_stop_times [] ''R1'' of
      Inl e \<Rightarrow> False
    | Inr res \<Rightarrow> map td_departure_time (rd_trips res) = [Some []] \<and> rd_total_stops res = 2) \<and>
   route_headway_samples bounds_trips lonely_stop_times ''R1'' = Some []"
  by code_simp

theorem zero_samples_kpi_zero_details_null_witness:
  "kpi_headways [] [] = [] \<and> trip_durations [] = [] \<and>
   kpi_avg_headway_minutes (get_kpis (Some two_routes) [] [] []) = JNum 0 \<and>
   kpi_avg_trip_duration_minutes (get_kpis (Some two_routes) [] [] []) = JNum 0 \<and>
   (\<exists>res. get_route_details two_routes headway_trips [] [] ''R1'' = Inr res \<and>
      rd_avg_headway_minutes res = JNull \<and> rd_trips res = [] \<and> rd_total_stops res = 0) \<and>
   (\<exists>info d. get_route_details two_routes bounds_trips lonely_stop_times [] ''R1'' = Inr info \<and>
      rd_total_stops info = 2 \<and>
      route_headway_samples bounds_trips lonely_stop_times ''R1'' = Some [] \<and>
      rd_avg_headway_minutes info = JNull \<and>
      d \<in> set (rd_trips info) \<and> parse_time_to_seconds (td_departure_time d) = None \<and>
      td_duration_minutes d = JNull)"
proof -
  have h: "kpi_headways [] [] = []" "trip_durations [] = []"
    using kpi_empty_example by simp_all
  obtain res where r: "get_route_details two_routes headway_trips [] [] ''R1'' = Inr res"
    using details_empty_example by blast
  have k: "kpi_avg_headway_minutes (get_kpis (Some two_routes) [] [] []) = JNum 0 \<and>
        kpi_avg_trip_duration_minutes (get_kpis (Some two_routes) [] [] []) = JNum 0"
    using h zero_samples_kpi_zero_details_null[where trips = "[]" and sts = "[]" and routes = two_routes
        and stops = "[]"]
    by blast
  have e: "rd_avg_headway_minutes res = JNull \<and> rd_trips res = [] \<and> rd_total_stops res = 0"
    using r zero_samples_kpi_zero_details_null[where trips = headway_trips and routes = two_routes
        and stops = "[]" and rid = "''R1''" and res = res]
    by blast
  obtain info where b: "get_route_details two_routes bounds_trips lonely_stop_times [] ''R1'' = Inr info"
    and bt: "map td_departure_time (rd_trips info) = [Some []]" and bs: "rd_total_stops info = 2"
    using lonely_example by (auto split: sum.splits)
  have s: "route_headway_samples bounds_trips lonely_stop_times ''R1'' = Some []"
    using lonely_example by simp
  from bt obtain d where dm: "d \<in> set (rd_trips info)" and dd: "td_departure_time d = Some []"
    by (cases "rd_trips info") auto
  have dp: "parse_time_to_seconds (td_departure_time d) = None"
    unfolding dd by (simp add: parse_time_to_seconds_def truthy_def)
  note t = zero_samples_kpi_zero_details_null[where trips = bounds_trips and sts = lonely_stop_times
        and routes = two_routes and stops = "[]" and rid = "''R1''" and info = info and d = d]
  have "rd_avg_headway_minutes info = JNull" using t b s by auto
  moreover have "td_duration_minutes d = JNull" using t b dm dp by blast
  ultimately show ?thesis using h k r e b bs s dm dp by blast
qed

text \<open>
  The claim as stated fails for the system-wide KPIs: on a dataset without any
  stop-time there is no headway and no duration, and both averages are the number 0.
\<close>

theorem kpi_averages_zero_not_null:
  "kpi_headways [] [] = [] \<and> trip_durations [] = [] \<and>
   kpi_avg_headway_minutes (get_kpis (Some []) [] [] []) = JNum 0 \<and>
   kpi_avg_trip_duration_minutes (get_kpis (Some []) [] [] []) = JNum 0 \<and>
   JNum 0 \<noteq> JNull"
  using kpi_empty_example by simp

subsection \<open>Route attribute edit\<close>

text \<open>
  When the edit goes through. On a table without missing cells, for a body that carries
  the key \<^verbatim>\<open>route_id\<close> and supplied attributes that are columns of the table, the first
  row whose \<^verbatim>\<open>route_id\<close> equals the id of the request gets the supplied attributes and
  keeps every other column, all other rows are as before, and the table is written
  back. An id that matches no row gives the not-found error, a body without the key
  \<^verbatim>\<open>route_id\<close> is refused, and in both cases the table on disk is unchanged. (A
  missing cell of another row would be written back as the empty text.)
\<close>

lemma update_route_frame:
  "(rectangular cols (pre @ route # post) \<and> map_of data ''route_id'' \<noteq> None \<and>
    (\<forall>k \<in> set edit_fields. map_of data k \<noteq> None \<longrightarrow> k \<in> set cols) \<and>
    (\<forall>r \<in> set pre. get r ''route_id'' \<noteq> Some rid) \<and> get route ''route_id'' = Some rid
    \<longrightarrow> (\<exists>route'. update_route (pre @ route # post) rid data = (None, pre @ route' # post) \<and>
           map fst route' = map fst route \<and>
           (\<forall>k. get route' k =
                  (case map_of data k of
                     None \<Rightarrow> get route k
                   | Some v \<Rightarrow> if k \<in> set edit_fields then Some v else get route k)))) \<and>
   (map_of data ''route_id'' \<noteq> None \<and> (\<forall>r \<in> set routes. get r ''route_id'' \<noteq> Some rid)
    \<longrightarrow> update_route routes rid data = (Some Not_found, routes)) \<and>
   (map_of data ''route_id'' = None
    \<longrightarrow> update_route routes rid data = (Some Bad_request, routes))"
proof -
  have "\<exists>route'. update_route (pre @ route # post) rid data = (None, pre @ route' # post) \<and>
           map fst route' = map fst route \<and>
           (\<forall>k. get route' k =
                  (case map_of data k of
                     None \<Rightarrow> get route k
                   | Some v \<Rightarrow> if k \<in> set edit_fields then Some v else get route k))"
    if h: "rectangular cols (pre @ route # post)" "map_of data ''route_id'' \<noteq> None"
      "\<forall>k \<in> set edit_fields. map_of data k \<noteq> None \<longrightarrow> k \<in> set cols"
      "\<forall>r \<in> set pre. get r ''route_id'' \<noteq> Some rid" "get route ''route_id'' = Some rid"
  proof -
    have "map fst route = cols" using h(1) by (simp add: rectangular_def)
    then show ?thesis
      using update_route_found[OF h] apply_edit_get[of data route] by metis
  qed
  moreover have "update_route routes rid data = (Some Bad_request, routes)"
    if "map_of data ''route_id'' = None"
    using that by (simp add: update_route_def)
  ultimately show ?thesis using update_route_not_found[of data routes rid] by blast
qed

lemma update_route_frame_example:
  "(\<exists>route'. update_route edit_routes ''R2'' [(''route_id'', ''R2''), (''route_short_name'', ''X'')] =
        (None, [edit_row ''R1'' ''1A'' ''First'', route', edit_row ''R3'' ''3C'' ''Third'']) \<and>
      get route' ''route_short_name'' = Some ''X'' \<and>
      get route' ''route_long_name'' = Some ''Second'' \<and>
      get route' ''route_id'' = Some ''R2'') \<and>
   update_route edit_routes ''R9'' [(''route_id'', ''R9''), (''route_short_name'', ''X'')] =
     (Some Not_found, edit_routes) \<and>
   update_route edit_routes ''R2'' [(''route_short_name'', ''X'')] = (Some Bad_request, edit_routes)"
proof -
  let ?data = "[(''route_id'', ''R2''), (''route_short_name'', ''X'')]"
  let ?data9 = "[(''route_id'', ''R9''), (''route_short_name'', ''X'')]"
  let ?pre = "[edit_row ''R1'' ''1A'' ''First'']"
  let ?route = "edit_row ''R2'' ''2B'' ''Second''"
  let ?post = "[edit_row ''R3'' ''3C'' ''Third'']"
  have e: "edit_routes = ?pre @ ?route # ?post" by (simp add: edit_routes_def)
  have h1: "rectangular edit_cols (?pre @ ?route # ?post)" by code_simp
  have h2: "map_of ?data ''route_id'' \<noteq> None" by simp
  have h3: "\<forall>k \<in> set edit_fields. map_of ?data k \<noteq> None \<longrightarrow> k \<in> set edit_cols" by code_simp
  have h4: "\<forall>r \<in> set ?pre. get r ''route_id'' \<noteq> Some ''R2''" by code_simp
  have h5: "get ?route ''route_id'' = Some ''R2''" by code_simp
  have g: "get ?route ''route_long_name'' = Some ''Second''" by code_simp
  have f: "''route_short_name'' \<in> set edit_fields" "''route_long_name'' \<in> set edit_fields"
    by (simp_all add: edit_fields_def)
  have n1: "map_of ?data9 ''route_id'' \<noteq> None" by simp
  have n2: "\<forall>r \<in> set edit_routes. get r ''route_id'' \<noteq> Some ''R9''" by code_simp
  have b: "map_of [(''route_short_name'', ''X'')] ''route_id'' = None" by simp
  from update_route_frame[of edit_cols ?pre ?route ?post ?data "''R2''"] h1 h2 h3 h4 h5
  obtain route' where r: "update_route (?pre @ ?route # ?post) ''R2'' ?data = (None, ?pre @ route' # ?post)"
    and k: "\<And>k. get route' k =
                  (case map_of ?data k of
                     None \<Rightarrow> get ?route k
                   | Some v \<Rightarrow> if k \<in> set edit_fields then Some v else get ?route k)"
    by blast
  have "get route' ''route_short_name'' = Some ''X''" using k[of "''route_short_name''"] f by simp
  moreover have "get route' ''route_long_name'' = Some ''Second''"
    using k[of "''route_long_name''"] g by simp
  moreover have "get route' ''route_id'' = Some ''R2''"
    using k[of "''route_id''"] h5 by (simp add: edit_fields_def)
  moreover have "update_route edit_routes ''R9'' ?data9 = (Some Not_found, edit_routes)"
    using update_route_frame[of _ _ _ _ ?data9 "''R9''" edit_routes] n1 n2 by blast
  moreover have "update_route edit_routes ''R2'' [(''route_short_name'', ''X'')] = (Some Bad_request, edit_routes)"
    using update_route_frame[of _ _ _ _ "[(''route_short_name'', ''X'')]" "''R2''" edit_routes] b by blast
  ultimately show ?thesis using r e by auto
qed

lemma update_route_needs_route_id_key:
  "known_route edit_routes ''R2'' \<and>
   update_route edit_routes ''R2'' [(''route_short_name'', ''X'')] = (Some Bad_request, edit_routes)"
  by code_simp

lemma update_route_existing_column:
  "update_route edit_routes ''R2'' [(''route_id'', ''R2''), (''route_short_name'', ''X'')] =
     (None, [edit_row ''R1'' ''1A'' ''First'', edit_row ''R2'' ''X'' ''Second'',
             edit_row ''R3'' ''3C'' ''Third''])"
  by code_simp

lemma update_route_new_column:
  "update_route edit_routes ''R2'' [(''route_id'', ''R2''), (''route_desc'', ''X'')] =
     (Some Server_error, [edit_row ''R1'' ''1A'' ''First''])"
  by code_simp

text \<open>
  Claim C9 on the code. The routes table has the columns \<^verbatim>\<open>route_id\<close>,
  \<^verbatim>\<open>route_short_name\<close> and \<^verbatim>\<open>route_long_name\<close> and the rows \<open>R1\<close>, \<open>R2\<close>, \<open>R3\<close>. The edit
  of the description of \<open>R2\<close> (an attribute of the claim that is no column of the file)
  ends with the error 500 and leaves on disk only the row \<open>R1\<close>: the edited row and the
  other row \<open>R3\<close> are lost, where the claim says that the supplied attribute is
  overwritten and every other row stays as it is. The edit of the short name, which is
  a column, changes that one cell only.
\<close>

theorem update_route_new_column_truncates:
  "known_route edit_routes ''R2'' \<and>
   update_route edit_routes ''R2'' [(''route_id'', ''R2''), (''route_desc'', ''X'')] =
     (Some Server_error, [edit_row ''R1'' ''1A'' ''First'']) \<and>
   update_route edit_routes ''R2'' [(''route_id'', ''R2''), (''route_short_name'', ''X'')] =
     (None, [edit_row ''R1'' ''1A'' ''First'', edit_row ''R2'' ''X'' ''Second'',
             edit_row ''R3'' ''3C'' ''Third''])"
  using update_route_needs_route_id_key update_route_existing_column update_route_new_column
  by simp

subsection \<open>Validity of the positions of a path\<close>

text \<open>
  Claim C3 holds for the all-routes batch: every position of every path it returns is
  within [-90, 90] x [-180, 180] and is not (0, 0), and a stop that resolves to a
  parsed position is kept exactly when the position is valid.
\<close>

lemma all_route_paths_positions:
  "bp \<in> set (get_all_route_paths to_float set_order routes_file trips sts stops) \<Longrightarrow>
     p \<in> set (bp_coordinates bp) \<Longrightarrow> valid_position p"
  using all_route_paths_valid by blast

text \<open>
  Claim C3 fails for the single-route path, whose test is \<^verbatim>\<open>lat != 0 and lon != 0\<close>
  without any range: for the trip over the stops at (45, 10), (0, 10) and (95, 10) it
  returns the positions (45, 10) and (95, 10). The position (95, 10) is out of range
  and is kept; the position (0, 10) is valid and is dropped. The batch returns (45, 10)
  and (0, 10) for the same tables.
\<close>

theorem route_path_range_not_checked:
  "get_route_path decimal_float bounds_trips bounds_stop_times path_stops ''R1'' =
     Inr \<lparr>rp_route_id = ''R1'', rp_coordinates = [(45, 10), (95, 10)],
          rp_stops = [\<lparr>si_stop_id = Some ''SA'', si_stop_name = Some ''SA'', si_stop_sequence = 1\<rparr>,
                      \<lparr>si_stop_id = Some ''SC'', si_stop_name = Some ''SC'', si_stop_sequence = 3\<rparr>],
          rp_total_stops = 2\<rparr> \<and>
   \<not> valid_position (95, 10) \<and> valid_position (0, 10) \<and>
   map bp_coordinates
     (get_all_route_paths decimal_float id (Some two_routes) bounds_trips bounds_stop_times path_stops) =
   [[(45, 10), (0, 10)]]"
  using bounds_single bounds_batch bounds_positions by simp

subsection \<open>Paths with fewer than two positions\<close>

text \<open>
  Claim C4 holds for the all-routes batch: every path it returns has at least two
  positions, and a route without such a path is left out while the others are
  returned.
\<close>

lemma all_route_paths_two_positions:
  "bp \<in> set (get_all_route_paths to_float set_order routes_file trips sts stops) \<Longrightarrow>
     2 \<le> length (bp_coordinates bp)"
  using all_route_paths_valid by blast

text \<open>
  Claim C4 fails for the single-route path, which has no test on the number of
  positions: for route \<open>R1\<close>, whose trip has one valid position, it returns a path
  with this single position instead of the answer that no path was found. For the same
  tables the batch returns exactly one path, that of route \<open>R2\<close> with three positions.
\<close>

theorem route_path_single_position_emitted:
  "get_route_path decimal_float short_trips short_stop_times path_stops ''R1'' =
     Inr \<lparr>rp_route_id = ''R1'', rp_coordinates = [(45, 10)],
          rp_stops = [\<lparr>si_stop_id = Some ''SA'', si_stop_name = Some ''SA'', si_stop_sequence = 1\<rparr>],
          rp_total_stops = 1\<rparr> \<and>
   get_route_path decimal_float short_trips short_stop_times path_stops ''R1'' \<noteq> Inl No_path_found \<and>
   map bp_route_id
     (get_all_route_paths decimal_float id (Some two_routes) short_trips short_stop_times path_stops) = [''R2''] \<and>
   map bp_coordinates
     (get_all_route_paths decimal_float id (Some two_routes) short_trips short_stop_times path_stops) =
   [[(45, 10), (46, 11), (47, 12)]]"
  using short_single short_batch by simp

end
